theory Spec2Isabelle
  imports Complex_Main "HOL-Library.Monad_Syntax"
begin

section \<open>Behave: surface inputs, surface runs and the crown fire engine\<close>

text \<open>
  A shallow embedding of \<^verbatim>\<open>surfaceInputs.cpp\<close>, \<^verbatim>\<open>surface.cpp\<close> and
  \<^verbatim>\<open>crown.cpp\<close>. A \<^verbatim>\<open>double\<close> is the \<^typ>\<open>real\<close> it denotes; infinities and NaN
  are outside the model. Rounding is modelled where the control flow depends on it, in
  the wind direction loop of \<^verbatim>\<open>updateSurfaceInputs\<close>, and is left out of the formulas
  of \<^verbatim>\<open>crown.cpp\<close> and \<^verbatim>\<open>surface.cpp\<close>. An \<^verbatim>\<open>int\<close> is an \<^typ>\<open>int\<close> (the code only
  stores and compares fuel model numbers and indices), a class is a record of its data
  members (the trailing underscore of a member name is dropped), a method is a function
  from the object before the call to the object after it.
\<close>

subsection \<open>Enumerations\<close>

text \<open>
  The enumerations are declared in \<^verbatim>\<open>surfaceEnums.h\<close>, which is not among the sources.
  Every enumerator that the sources name is kept under its name; the code below only
  stores enumerators and compares them for equality.
\<close>

datatype WindHeightInputMode = DirectMidflame | TWENTY_FOOT | TEN_METER

datatype WindAndSpreadOrientationMode = RelativeToUpslope | RelativeToNorth

datatype TwoFuelModelsMethod = NoMethod | Arithmetic | Harmonic | TwoDimensional

datatype MoistureInputMode =
  BySizeClass | AllAggregate | DeadAggregateAndLiveSizeClass
  | LiveAggregateAndDeadSizeClass | MoistureScenario

datatype MoistureClassInput =
  OneHour | TenHour | HundredHour | LiveHerbaceous | LiveWoody | DeadAggregate | LiveAggregate

datatype AspenFireSeverity = Low | High

datatype WindAdjustmentFactorCalculationMethod = UserInput | UseCrownRatio | DontUseCrownRatio

datatype SurfaceFireSpreadDirectionMode = FromIgnitionPoint | FromPerimeter

subsection \<open>External collaborators of the surface inputs\<close>

text \<open>
  The unit conversion library is not among the sources. Its \<^verbatim>\<open>toBaseUnits\<close> functions
  are parameters of the model, one per unit family that \<^verbatim>\<open>surfaceInputs.cpp\<close> converts;
  the unit enumerations are type parameters.
\<close>

record ('mu, 'su, 'slu, 'cu, 'lu) UnitConversions =
  moistureToBaseUnits :: "real \<Rightarrow> 'mu \<Rightarrow> real"
  speedToBaseUnits :: "real \<Rightarrow> 'su \<Rightarrow> real"
  slopeToBaseUnits :: "real \<Rightarrow> 'slu \<Rightarrow> real"
  coverToBaseUnits :: "real \<Rightarrow> 'cu \<Rightarrow> real"
  lengthToBaseUnits :: "real \<Rightarrow> 'lu \<Rightarrow> real"

text \<open>
  The moisture scenario table (class \<^verbatim>\<open>MoistureScenarios\<close>) is not among the sources
  either; the five lookups by index that \<^verbatim>\<open>updateMoisturesBasedOnInputMode\<close> makes are
  its model.
\<close>

record MoistureScenarios =
  getMoistureScenarioOneHourByIndex :: "int \<Rightarrow> real"
  getMoistureScenarioTenHourByIndex :: "int \<Rightarrow> real"
  getMoistureScenarioHundredHourByIndex :: "int \<Rightarrow> real"
  getMoistureScenarioLiveHerbaceousByIndex :: "int \<Rightarrow> real"
  getMoistureScenarioLiveWoodyByIndex :: "int \<Rightarrow> real"

subsection \<open>SurfaceInputs\<close>

text \<open>
  The data members are those that \<^verbatim>\<open>surfaceInputs.cpp\<close> reads or writes. The pointer
  \<^verbatim>\<open>moistureScenarios\<close> is \<^term>\<open>None\<close> when null and otherwise holds the table it
  points to, which the inputs only read. The array \<^verbatim>\<open>moistureValuesBySizeClass_\<close> is
  indexed by the enumerators of \<^typ>\<open>MoistureClassInput\<close>. The sources name no
  enumerator of \<^verbatim>\<open>ChaparralFuelType\<close>, so \<^verbatim>\<open>chaparralFuelType_\<close> holds the integer
  value of its enumerator. The four chaparral parameters are the last four members here;
  neither \<^verbatim>\<open>initializeMembers\<close> nor \<^verbatim>\<open>memberwiseCopyAssignment\<close> assigns them.
\<close>

record SurfaceInputs =
  airTemperature :: real
  fuelModelNumber :: int
  secondFuelModelNumber :: int
  moistureOneHour :: real
  moistureTenHour :: real
  moistureHundredHour :: real
  moistureDeadAggregate :: real
  moistureLiveHerbaceous :: real
  moistureLiveWoody :: real
  moistureLiveAggregate :: real
  slope :: real
  aspect :: real
  windSpeed :: real
  windDirection :: real
  moistureInputMode :: MoistureInputMode
  isCalculatingScorchHeight :: bool
  isUsingTwoFuelModelsFlag :: bool
  isUsingPalmettoGallberry :: bool
  isUsingWesternAspen :: bool
  isUsingChaparral :: bool
  windAndSpreadOrientationMode :: WindAndSpreadOrientationMode
  windHeightInputMode :: WindHeightInputMode
  twoFuelModelsMethod :: TwoFuelModelsMethod
  windAdjustmentFactorCalculationMethod :: WindAdjustmentFactorCalculationMethod
  surfaceFireSpreadDirectionMode :: SurfaceFireSpreadDirectionMode
  firstFuelModelCoverage :: real
  ageOfRough :: real
  heightOfUnderstory :: real
  palmettoCoverage :: real
  overstoryBasalArea :: real
  canopyCover :: real
  canopyHeight :: real
  crownRatio :: real
  aspenFuelModelNumber :: int
  aspenCuringLevel :: real
  aspenFireSeverity :: AspenFireSeverity
  dbh :: real
  elapsedTime :: real
  userProvidedWindAdjustmentFactor :: real
  moistureScenarios :: "MoistureScenarios option"
  currentMoistureScenarioName :: string
  currentMoistureScenarioIndex :: int
  moistureValuesBySizeClass :: "MoistureClassInput \<Rightarrow> real"
  chaparralFuelType :: int
  chaparralFuelBedDepth :: real
  chaparralFuelDeadLoadFraction :: real
  chaparralTotalFuelLoad :: real

text \<open>
  \<^verbatim>\<open>SurfaceInputs::initializeMembers\<close>, which is all the default constructor runs, on
  the object as the storage held it. The four chaparral parameters are not assigned and
  keep what the storage held. The parameter is
  \<^verbatim>\<open>TimeUnits::toBaseUnits(1, TimeUnits::Hours)\<close>.
\<close>

definition initializeMembers :: "real \<Rightarrow> SurfaceInputs \<Rightarrow> SurfaceInputs" where
  "initializeMembers oneHourInBaseUnits this =
     this\<lparr>airTemperature := - 500,
       fuelModelNumber := 0,
       secondFuelModelNumber := 0,
       moistureOneHour := 0,
       moistureTenHour := 0,
       moistureHundredHour := 0,
       moistureDeadAggregate := - 1,
       moistureLiveHerbaceous := 0,
       moistureLiveWoody := 0,
       moistureLiveAggregate := - 1,
       slope := 0,
       aspect := 0,
       windSpeed := 0,
       windDirection := 0,
       moistureInputMode := BySizeClass,
       isCalculatingScorchHeight := False,
       isUsingTwoFuelModelsFlag := False,
       isUsingPalmettoGallberry := False,
       isUsingWesternAspen := False,
       isUsingChaparral := False,
       windAndSpreadOrientationMode := RelativeToUpslope,
       windHeightInputMode := DirectMidflame,
       twoFuelModelsMethod := NoMethod,
       windAdjustmentFactorCalculationMethod := UseCrownRatio,
       surfaceFireSpreadDirectionMode := FromIgnitionPoint,
       firstFuelModelCoverage := 0,
       ageOfRough := 0,
       heightOfUnderstory := 0,
       palmettoCoverage := 0,
       overstoryBasalArea := 0,
       canopyCover := 0,
       canopyHeight := 0,
       crownRatio := 0,
       aspenFuelModelNumber := - 1,
       aspenCuringLevel := 0,
       aspenFireSeverity := Low,
       dbh := 0,
       elapsedTime := oneHourInBaseUnits,
       userProvidedWindAdjustmentFactor := - 1,
       moistureScenarios := None,
       currentMoistureScenarioName := [],
       currentMoistureScenarioIndex := - 1,
       moistureValuesBySizeClass := (\<lambda>c. - 1)\<rparr>"

text \<open>
  \<^verbatim>\<open>SurfaceInputs::updateMoisturesBasedOnInputMode\<close>. In the mode
  \<^term>\<open>MoistureScenario\<close> the code dereferences \<^verbatim>\<open>moistureScenarios\<close>; with a null
  pointer the call has no result, which is \<^term>\<open>None\<close> here and in every method that
  calls this one.
\<close>

definition updateMoisturesBasedOnInputMode :: "SurfaceInputs \<Rightarrow> SurfaceInputs option" where
  "updateMoisturesBasedOnInputMode si =
     (if moistureInputMode si = BySizeClass then
        Some (si\<lparr>moistureValuesBySizeClass := (moistureValuesBySizeClass si)
          (OneHour := moistureOneHour si,
           TenHour := moistureTenHour si,
           HundredHour := moistureHundredHour si,
           LiveHerbaceous := moistureLiveHerbaceous si,
           LiveWoody := moistureLiveWoody si,
           DeadAggregate := - 1,
           LiveAggregate := - 1)\<rparr>)
      else if moistureInputMode si = AllAggregate then
        Some (si\<lparr>moistureValuesBySizeClass := (moistureValuesBySizeClass si)
          (OneHour := moistureDeadAggregate si,
           TenHour := moistureDeadAggregate si,
           HundredHour := moistureDeadAggregate si,
           LiveHerbaceous := moistureLiveAggregate si,
           LiveWoody := moistureLiveAggregate si,
           DeadAggregate := moistureDeadAggregate si,
           LiveAggregate := moistureLiveAggregate si)\<rparr>)
      else if moistureInputMode si = DeadAggregateAndLiveSizeClass then
        Some (si\<lparr>moistureValuesBySizeClass := (moistureValuesBySizeClass si)
          (OneHour := moistureDeadAggregate si,
           TenHour := moistureDeadAggregate si,
           HundredHour := moistureDeadAggregate si,
           LiveHerbaceous := moistureLiveHerbaceous si,
           LiveWoody := moistureLiveWoody si,
           DeadAggregate := moistureDeadAggregate si,
           LiveAggregate := - 1)\<rparr>)
      else if moistureInputMode si = LiveAggregateAndDeadSizeClass then
        Some (si\<lparr>moistureValuesBySizeClass := (moistureValuesBySizeClass si)
          (OneHour := moistureOneHour si,
           TenHour := moistureTenHour si,
           HundredHour := moistureHundredHour si,
           LiveHerbaceous := moistureLiveAggregate si,
           LiveWoody := moistureLiveAggregate si,
           DeadAggregate := - 1,
           LiveAggregate := moistureLiveAggregate si)\<rparr>)
      else if moistureInputMode si = MoistureScenario then
        (case moistureScenarios si of
           None \<Rightarrow> None
         | Some ms \<Rightarrow>
             Some (si\<lparr>moistureValuesBySizeClass := (moistureValuesBySizeClass si)
               (OneHour := getMoistureScenarioOneHourByIndex ms (currentMoistureScenarioIndex si),
                TenHour := getMoistureScenarioTenHourByIndex ms (currentMoistureScenarioIndex si),
                HundredHour :=
                  getMoistureScenarioHundredHourByIndex ms (currentMoistureScenarioIndex si),
                LiveHerbaceous :=
                  getMoistureScenarioLiveHerbaceousByIndex ms (currentMoistureScenarioIndex si),
                LiveWoody :=
                  getMoistureScenarioLiveWoodyByIndex ms (currentMoistureScenarioIndex si),
                DeadAggregate := - 1,
                LiveAggregate := - 1)\<rparr>))
      else Some si)"

text \<open>The setters that \<^verbatim>\<open>updateSurfaceInputs\<close> calls, as \<^verbatim>\<open>surfaceInputs.cpp\<close> has them.\<close>

definition setSlope ::
  "('mu, 'su, 'slu, 'cu, 'lu) UnitConversions \<Rightarrow> real \<Rightarrow> 'slu \<Rightarrow> SurfaceInputs \<Rightarrow> SurfaceInputs"
where
  "setSlope conv slopeArg slopeUnits si = si\<lparr>slope := slopeToBaseUnits conv slopeArg slopeUnits\<rparr>"

definition setFuelModelNumber :: "int \<Rightarrow> SurfaceInputs \<Rightarrow> SurfaceInputs" where
  "setFuelModelNumber n si = si\<lparr>fuelModelNumber := n\<rparr>"

definition setMoistureOneHour ::
  "('mu, 'su, 'slu, 'cu, 'lu) UnitConversions \<Rightarrow> real \<Rightarrow> 'mu \<Rightarrow> SurfaceInputs
     \<Rightarrow> SurfaceInputs option"
where
  "setMoistureOneHour conv m moistureUnits si =
     updateMoisturesBasedOnInputMode
       (si\<lparr>moistureOneHour := moistureToBaseUnits conv m moistureUnits\<rparr>)"

definition setMoistureTenHour ::
  "('mu, 'su, 'slu, 'cu, 'lu) UnitConversions \<Rightarrow> real \<Rightarrow> 'mu \<Rightarrow> SurfaceInputs
     \<Rightarrow> SurfaceInputs option"
where
  "setMoistureTenHour conv m moistureUnits si =
     updateMoisturesBasedOnInputMode
       (si\<lparr>moistureTenHour := moistureToBaseUnits conv m moistureUnits\<rparr>)"

definition setMoistureHundredHour ::
  "('mu, 'su, 'slu, 'cu, 'lu) UnitConversions \<Rightarrow> real \<Rightarrow> 'mu \<Rightarrow> SurfaceInputs
     \<Rightarrow> SurfaceInputs option"
where
  "setMoistureHundredHour conv m moistureUnits si =
     updateMoisturesBasedOnInputMode
       (si\<lparr>moistureHundredHour := moistureToBaseUnits conv m moistureUnits\<rparr>)"

definition setMoistureLiveHerbaceous ::
  "('mu, 'su, 'slu, 'cu, 'lu) UnitConversions \<Rightarrow> real \<Rightarrow> 'mu \<Rightarrow> SurfaceInputs
     \<Rightarrow> SurfaceInputs option"
where
  "setMoistureLiveHerbaceous conv m moistureUnits si =
     updateMoisturesBasedOnInputMode
       (si\<lparr>moistureLiveHerbaceous := moistureToBaseUnits conv m moistureUnits\<rparr>)"

definition setMoistureLiveWoody ::
  "('mu, 'su, 'slu, 'cu, 'lu) UnitConversions \<Rightarrow> real \<Rightarrow> 'mu \<Rightarrow> SurfaceInputs
     \<Rightarrow> SurfaceInputs option"
where
  "setMoistureLiveWoody conv m moistureUnits si =
     updateMoisturesBasedOnInputMode
       (si\<lparr>moistureLiveWoody := moistureToBaseUnits conv m moistureUnits\<rparr>)"

definition setWindSpeed ::
  "('mu, 'su, 'slu, 'cu, 'lu) UnitConversions \<Rightarrow> real \<Rightarrow> 'su \<Rightarrow> WindHeightInputMode
     \<Rightarrow> SurfaceInputs \<Rightarrow> SurfaceInputs"
where
  "setWindSpeed conv w windSpeedUnits mode si =
     si\<lparr>windHeightInputMode := mode, windSpeed := speedToBaseUnits conv w windSpeedUnits\<rparr>"

definition setWindHeightInputMode :: "WindHeightInputMode \<Rightarrow> SurfaceInputs \<Rightarrow> SurfaceInputs" where
  "setWindHeightInputMode mode si = si\<lparr>windHeightInputMode := mode\<rparr>"

definition setWindDirection :: "real \<Rightarrow> SurfaceInputs \<Rightarrow> SurfaceInputs" where
  "setWindDirection windDirectionArg si = si\<lparr>windDirection := windDirectionArg\<rparr>"

definition setWindAndSpreadOrientationMode ::
  "WindAndSpreadOrientationMode \<Rightarrow> SurfaceInputs \<Rightarrow> SurfaceInputs"
where
  "setWindAndSpreadOrientationMode mode si = si\<lparr>windAndSpreadOrientationMode := mode\<rparr>"

definition setTwoFuelModelsMethod :: "TwoFuelModelsMethod \<Rightarrow> SurfaceInputs \<Rightarrow> SurfaceInputs" where
  "setTwoFuelModelsMethod m si = si\<lparr>twoFuelModelsMethod := m\<rparr>"

definition setCanopyCover ::
  "('mu, 'su, 'slu, 'cu, 'lu) UnitConversions \<Rightarrow> real \<Rightarrow> 'cu \<Rightarrow> SurfaceInputs \<Rightarrow> SurfaceInputs"
where
  "setCanopyCover conv c coverUnits si = si\<lparr>canopyCover := coverToBaseUnits conv c coverUnits\<rparr>"

definition setCanopyHeight ::
  "('mu, 'su, 'slu, 'cu, 'lu) UnitConversions \<Rightarrow> real \<Rightarrow> 'lu \<Rightarrow> SurfaceInputs \<Rightarrow> SurfaceInputs"
where
  "setCanopyHeight conv h canopyHeightUnits si =
     si\<lparr>canopyHeight := lengthToBaseUnits conv h canopyHeightUnits\<rparr>"

definition setCrownRatio :: "real \<Rightarrow> SurfaceInputs \<Rightarrow> SurfaceInputs" where
  "setCrownRatio r si = si\<lparr>crownRatio := r\<rparr>"

text \<open>The getters that the surface run and the crown engine call.\<close>

definition getWindDirection :: "SurfaceInputs \<Rightarrow> real" where
  "getWindDirection si = windDirection si"

definition getWindHeightInputMode :: "SurfaceInputs \<Rightarrow> WindHeightInputMode" where
  "getWindHeightInputMode si = windHeightInputMode si"

definition getFuelModelNumber :: "SurfaceInputs \<Rightarrow> int" where
  "getFuelModelNumber si = fuelModelNumber si"

definition getFirstFuelModelNumber :: "SurfaceInputs \<Rightarrow> int" where
  "getFirstFuelModelNumber si = fuelModelNumber si"

definition getSecondFuelModelNumber :: "SurfaceInputs \<Rightarrow> int" where
  "getSecondFuelModelNumber si = secondFuelModelNumber si"

definition getFirstFuelModelCoverage :: "SurfaceInputs \<Rightarrow> real" where
  "getFirstFuelModelCoverage si = firstFuelModelCoverage si"

definition getTwoFuelModelsMethod :: "SurfaceInputs \<Rightarrow> TwoFuelModelsMethod" where
  "getTwoFuelModelsMethod si = twoFuelModelsMethod si"

definition isUsingTwoFuelModels :: "SurfaceInputs \<Rightarrow> bool" where
  "isUsingTwoFuelModels si = isUsingTwoFuelModelsFlag si"

definition getIsUsingPalmettoGallberry :: "SurfaceInputs \<Rightarrow> bool" where
  "getIsUsingPalmettoGallberry si = isUsingPalmettoGallberry si"

definition getIsUsingWesternAspen :: "SurfaceInputs \<Rightarrow> bool" where
  "getIsUsingWesternAspen si = isUsingWesternAspen si"

definition getIsUsingChaparral :: "SurfaceInputs \<Rightarrow> bool" where
  "getIsUsingChaparral si = isUsingChaparral si"

definition getCanopyHeight :: "SurfaceInputs \<Rightarrow> real" where
  "getCanopyHeight si = canopyHeight si"

text \<open>The setters of the four chaparral parameters.\<close>

definition setChaparralFuelType :: "int \<Rightarrow> SurfaceInputs \<Rightarrow> SurfaceInputs" where
  "setChaparralFuelType chaparralFuelTypeArg si = si\<lparr>chaparralFuelType := chaparralFuelTypeArg\<rparr>"

definition setChaparralFuelBedDepth ::
  "('mu, 'su, 'slu, 'cu, 'lu) UnitConversions \<Rightarrow> real \<Rightarrow> 'lu \<Rightarrow> SurfaceInputs \<Rightarrow> SurfaceInputs"
where
  "setChaparralFuelBedDepth conv d depthUnits si =
     si\<lparr>chaparralFuelBedDepth := lengthToBaseUnits conv d depthUnits\<rparr>"

definition setChaparralFuelDeadLoadFraction :: "real \<Rightarrow> SurfaceInputs \<Rightarrow> SurfaceInputs" where
  "setChaparralFuelDeadLoadFraction f si = si\<lparr>chaparralFuelDeadLoadFraction := f\<rparr>"

definition setChaparralTotalFuelLoad ::
  "(real \<Rightarrow> 'ldu \<Rightarrow> real) \<Rightarrow> real \<Rightarrow> 'ldu \<Rightarrow> SurfaceInputs \<Rightarrow> SurfaceInputs"
where
  "setChaparralTotalFuelLoad loadingToBaseUnits l fuelLoadUnits si =
     si\<lparr>chaparralTotalFuelLoad := loadingToBaseUnits l fuelLoadUnits\<rparr>"

subsection \<open>Double precision in the wind direction loop\<close>

text \<open>
  \<^verbatim>\<open>updateSurfaceInputs\<close> normalises the wind direction by
  \<^verbatim>\<open>if (windDirection < 0.0) windDirection += 360.0;\<close> followed by
  \<^verbatim>\<open>while (windDirection >= 360.0) windDirection -= 360.0;\<close>. Whether the loop ends
  depends on the rounding of the subtraction: from a large enough \<^verbatim>\<open>double\<close>,
  subtracting 360 gives the same \<^verbatim>\<open>double\<close> back. So the sum and the difference are
  rounded here as IEEE 754 binary64 arithmetic rounds them: to the nearest number with a
  significand of 53 bits, a tie going to the even significand. The exponent is not
  bounded in the model (no overflow, no subnormal numbers); the values that the loop
  handles are far from both ends of the exponent range.
\<close>

definition roundHalfEven :: "real \<Rightarrow> int" where
  "roundHalfEven y =
     (let f = \<lfloor>y\<rfloor>
      in if y - of_int f < 1 / 2 then f
         else if 1 / 2 < y - of_int f then f + 1
         else if even f then f else f + 1)"

definition roundToDouble :: "real \<Rightarrow> real" where
  "roundToDouble x =
     (if x = 0 then 0
      else (let quantum = 2 powr (of_int \<lfloor>log 2 \<bar>x\<bar>\<rfloor> - 52)
            in quantum * of_int (roundHalfEven (x / quantum))))"

text \<open>
  The loop. It need not end, so it is a partial function: \<^term>\<open>None\<close> is the loop that
  runs forever.
\<close>

partial_function (option) subtractFullTurns :: "real \<Rightarrow> real option" where
  "subtractFullTurns windDirectionArg =
     (if windDirectionArg \<ge> 360 then subtractFullTurns (roundToDouble (windDirectionArg - 360))
      else Some windDirectionArg)"

text \<open>
  \<^verbatim>\<open>SurfaceInputs::updateSurfaceInputs\<close>, statement by statement. The call has no
  result when a moisture setter dereferences a null scenario table, or when the wind
  direction loop does not end.
\<close>

definition updateSurfaceInputs ::
  "('mu, 'su, 'slu, 'cu, 'lu) UnitConversions \<Rightarrow> int \<Rightarrow> real \<Rightarrow> real \<Rightarrow> real \<Rightarrow> real \<Rightarrow> real
     \<Rightarrow> 'mu \<Rightarrow> real \<Rightarrow> 'su \<Rightarrow> WindHeightInputMode \<Rightarrow> real \<Rightarrow> WindAndSpreadOrientationMode
     \<Rightarrow> real \<Rightarrow> 'slu \<Rightarrow> real \<Rightarrow> real \<Rightarrow> 'cu \<Rightarrow> real \<Rightarrow> 'lu \<Rightarrow> real
     \<Rightarrow> SurfaceInputs \<Rightarrow> SurfaceInputs option"
where
  "updateSurfaceInputs conv fuelModelNumberArg moistureOneHourArg moistureTenHourArg
     moistureHundredHourArg moistureLiveHerbaceousArg moistureLiveWoodyArg moistureUnits
     windSpeedArg windSpeedUnits windHeightInputModeArg windDirectionArg
     windAndSpreadOrientationModeArg slopeArg slopeUnits aspectArg canopyCoverArg coverUnits
     canopyHeightArg canopyHeightUnits crownRatioArg si0 =
   do {
     let si1 = setSlope conv slopeArg slopeUnits si0;
     let si2 = si1\<lparr>aspect := aspectArg\<rparr>;
     let si3 = setFuelModelNumber fuelModelNumberArg si2;
     si4 \<leftarrow> setMoistureOneHour conv moistureOneHourArg moistureUnits si3;
     si5 \<leftarrow> setMoistureTenHour conv moistureTenHourArg moistureUnits si4;
     si6 \<leftarrow> setMoistureHundredHour conv moistureHundredHourArg moistureUnits si5;
     si7 \<leftarrow> setMoistureLiveHerbaceous conv moistureLiveHerbaceousArg moistureUnits si6;
     si8 \<leftarrow> setMoistureLiveWoody conv moistureLiveWoodyArg moistureUnits si7;
     let si9 = setWindSpeed conv windSpeedArg windSpeedUnits windHeightInputModeArg si8;
     let si10 = setWindHeightInputMode windHeightInputModeArg si9;
     let wd1 = (if windDirectionArg < 0 then roundToDouble (windDirectionArg + 360)
                else windDirectionArg);
     wd2 \<leftarrow> subtractFullTurns wd1;
     let si11 = setWindDirection wd2 si10;
     let si12 = setWindAndSpreadOrientationMode windAndSpreadOrientationModeArg si11;
     let si13 = si12\<lparr>isUsingTwoFuelModelsFlag := False\<rparr>;
     let si14 = setTwoFuelModelsMethod NoMethod si13;
     let si15 = setCanopyCover conv canopyCoverArg coverUnits si14;
     let si16 = setCanopyHeight conv canopyHeightArg canopyHeightUnits si15;
     Some (setCrownRatio crownRatioArg si16)
   }"

text \<open>The three special fuel switches.\<close>

definition setIsUsingWesternAspen :: "bool \<Rightarrow> SurfaceInputs \<Rightarrow> SurfaceInputs" where
  "setIsUsingWesternAspen b si =
     (let si1 = si\<lparr>isUsingWesternAspen := b\<rparr>
      in if isUsingWesternAspen si1
         then si1\<lparr>isUsingChaparral := False, isUsingPalmettoGallberry := False\<rparr>
         else si1)"

definition setIsUsingPalmettoGallberry :: "bool \<Rightarrow> SurfaceInputs \<Rightarrow> SurfaceInputs" where
  "setIsUsingPalmettoGallberry b si =
     (let si1 = si\<lparr>isUsingPalmettoGallberry := b\<rparr>
      in if isUsingPalmettoGallberry si1
         then si1\<lparr>isUsingChaparral := False, isUsingWesternAspen := False\<rparr>
         else si1)"

definition setIsUsingChaparral :: "bool \<Rightarrow> SurfaceInputs \<Rightarrow> SurfaceInputs" where
  "setIsUsingChaparral b si =
     (let si1 = si\<lparr>isUsingChaparral := b\<rparr>
      in if isUsingChaparral si1
         then si1\<lparr>isUsingPalmettoGallberry := False, isUsingWesternAspen := False\<rparr>
         else si1)"

text \<open>
  The number of special fuel switches that are on; the invariant of the three setters is
  that it is at most one.
\<close>

definition specialFuelFlagCount :: "SurfaceInputs \<Rightarrow> nat" where
  "specialFuelFlagCount si =
     (if isUsingPalmettoGallberry si then 1 else 0)
     + (if isUsingWesternAspen si then 1 else 0)
     + (if isUsingChaparral si then 1 else 0)"


subsection \<open>Surface\<close>

text \<open>
  The fuel model catalog (\<^verbatim>\<open>fuelModels_\<close>) is not among the sources; the surface run
  asks it two questions about a fuel model number, which are its model.
\<close>

record FuelModels =
  fuelModelIsAllFuelLoadZero :: "int \<Rightarrow> bool"
  fuelModelIsDefined :: "int \<Rightarrow> bool"

text \<open>
  Modelled from the spec: class \<^verbatim>\<open>SurfaceFire\<close> (the member \<^verbatim>\<open>surfaceFire_\<close>) is not
  among the sources. Its state holds the four outputs of a surface run that the spec
  names: spread rate, fireline intensity, flame length and heat per unit area, all in
  base units.
\<close>

record SurfaceFire =
  spreadRate :: real
  firelineIntensity :: real
  flameLength :: real
  heatPerUnitArea :: real

text \<open>
  Modelled from the spec: \<^verbatim>\<open>SurfaceFire::skipCalculationForZeroLoad\<close> is not among the
  sources. By the spec's zero-fuel-load short-circuit it sets the spread rate and all
  derived quantities to zero.
\<close>

definition skipCalculationForZeroLoad :: "SurfaceFire \<Rightarrow> SurfaceFire" where
  "skipCalculationForZeroLoad sf =
     sf\<lparr>spreadRate := 0, firelineIntensity := 0, flameLength := 0, heatPerUnitArea := 0\<rparr>"

text \<open>
  A surface run ends in exactly one call on \<^verbatim>\<open>surfaceFire_\<close> (directly, or through a
  \<^verbatim>\<open>SurfaceTwoFuelModels\<close> built on it). The call, with its arguments, is the value of
  the run in the model; \<^verbatim>\<open>calculateForwardSpreadRate\<close> and
  \<^verbatim>\<open>calculateWeightedSpreadRate\<close> are where Rothermel's formulas are evaluated.
\<close>

datatype SurfaceFireCall =
  SkipCalculationForZeroLoad
  | CalculateForwardSpreadRate int bool real SurfaceFireSpreadDirectionMode
  | CalculateWeightedSpreadRate TwoFuelModelsMethod int real int bool real
      SurfaceFireSpreadDirectionMode

text \<open>
  The two spread rate calculations themselves are parameters: each maps its arguments, the
  inputs and the state of \<^verbatim>\<open>surfaceFire_\<close> to the next state.
\<close>

record SurfaceFireExternals =
  calculateForwardSpreadRateExt ::
    "int \<Rightarrow> bool \<Rightarrow> real \<Rightarrow> SurfaceFireSpreadDirectionMode \<Rightarrow> SurfaceInputs \<Rightarrow> SurfaceFire
       \<Rightarrow> SurfaceFire"
  calculateWeightedSpreadRateExt ::
    "TwoFuelModelsMethod \<Rightarrow> int \<Rightarrow> real \<Rightarrow> int \<Rightarrow> bool \<Rightarrow> real \<Rightarrow> SurfaceFireSpreadDirectionMode
       \<Rightarrow> SurfaceInputs \<Rightarrow> SurfaceFire \<Rightarrow> SurfaceFire"

fun runSurfaceFireCall ::
  "SurfaceFireExternals \<Rightarrow> SurfaceFireCall \<Rightarrow> SurfaceInputs \<Rightarrow> SurfaceFire \<Rightarrow> SurfaceFire"
where
  "runSurfaceFireCall ext SkipCalculationForZeroLoad si sf = skipCalculationForZeroLoad sf"
| "runSurfaceFireCall ext (CalculateForwardSpreadRate n h d m) si sf =
     calculateForwardSpreadRateExt ext n h d m si sf"
| "runSurfaceFireCall ext (CalculateWeightedSpreadRate tm n1 c n2 h d m) si sf =
     calculateWeightedSpreadRateExt ext tm n1 c n2 h d m si sf"

text \<open>
  The data members of \<^verbatim>\<open>Surface\<close> that \<^verbatim>\<open>surface.cpp\<close> reads and writes in a surface
  run; the catalog pointer \<^verbatim>\<open>fuelModels_\<close> is an argument of the methods that use it.
\<close>

record Surface =
  surfaceInputs :: SurfaceInputs
  surfaceFire :: SurfaceFire

definition isAllFuelLoadZero :: "FuelModels \<Rightarrow> int \<Rightarrow> bool" where
  "isAllFuelLoadZero fuelModels n = fuelModelIsAllFuelLoadZero fuelModels n"

definition isFuelModelDefined :: "FuelModels \<Rightarrow> int \<Rightarrow> bool" where
  "isFuelModelDefined fuelModels n = fuelModelIsDefined fuelModels n"

text \<open>
  \<^verbatim>\<open>Surface::doSurfaceRunInDirectionOfMaxSpread\<close>: the surface with its inputs updated,
  and the call made on \<^verbatim>\<open>surfaceFire_\<close>.
\<close>

definition doSurfaceRunInDirectionOfMaxSpread ::
  "FuelModels \<Rightarrow> Surface \<Rightarrow> (Surface \<times> SurfaceFireCall) option"
where
  "doSurfaceRunInDirectionOfMaxSpread fuelModels s =
   do {
     si \<leftarrow> updateMoisturesBasedOnInputMode (surfaceInputs s);
     let s1 = s\<lparr>surfaceInputs := si\<rparr>;
     let directionOfInterest = 0;
     let hasDirectionOfInterest = False;
     let directionMode = FromIgnitionPoint;
     if isUsingTwoFuelModels si then
       Some (s1, CalculateWeightedSpreadRate (getTwoFuelModelsMethod si)
         (getFirstFuelModelNumber si) (getFirstFuelModelCoverage si)
         (getSecondFuelModelNumber si) hasDirectionOfInterest directionOfInterest directionMode)
     else
       let fuelModelNumber = getFuelModelNumber si;
           isUsingChaparralOrPalmettoGallberryOrWesternAspen =
             (getIsUsingPalmettoGallberry si \<or> getIsUsingWesternAspen si
              \<or> getIsUsingChaparral si)
       in if \<not> isUsingChaparralOrPalmettoGallberryOrWesternAspen
             \<and> (isAllFuelLoadZero fuelModels fuelModelNumber
                \<or> \<not> isFuelModelDefined fuelModels fuelModelNumber)
          then Some (s1, SkipCalculationForZeroLoad)
          else Some (s1, CalculateForwardSpreadRate fuelModelNumber hasDirectionOfInterest
                 directionOfInterest directionMode)
   }"

text \<open>\<^verbatim>\<open>Surface::doSurfaceRunInDirectionOfInterest\<close>, in the same way.\<close>

definition doSurfaceRunInDirectionOfInterest ::
  "FuelModels \<Rightarrow> real \<Rightarrow> SurfaceFireSpreadDirectionMode \<Rightarrow> Surface
     \<Rightarrow> (Surface \<times> SurfaceFireCall) option"
where
  "doSurfaceRunInDirectionOfInterest fuelModels directionOfInterest directionMode s =
   do {
     si \<leftarrow> updateMoisturesBasedOnInputMode (surfaceInputs s);
     let s1 = s\<lparr>surfaceInputs := si\<rparr>;
     let hasDirectionOfInterest = True;
     if isUsingTwoFuelModels si then
       Some (s1, CalculateWeightedSpreadRate (getTwoFuelModelsMethod si)
         (getFirstFuelModelNumber si) (getFirstFuelModelCoverage si)
         (getSecondFuelModelNumber si) hasDirectionOfInterest directionOfInterest directionMode)
     else
       let fuelModelNumber = getFuelModelNumber si
       in if isAllFuelLoadZero fuelModels fuelModelNumber
             \<or> \<not> isFuelModelDefined fuelModels fuelModelNumber
          then Some (s1, SkipCalculationForZeroLoad)
          else Some (s1, CalculateForwardSpreadRate fuelModelNumber hasDirectionOfInterest
                 directionOfInterest directionMode)
   }"

text \<open>
  The surface after a run: the call that the run made is carried out on \<^verbatim>\<open>surfaceFire_\<close>.
\<close>

definition surfaceAfterRun ::
  "SurfaceFireExternals \<Rightarrow> Surface \<times> SurfaceFireCall \<Rightarrow> Surface"
where
  "surfaceAfterRun ext run =
     (fst run)\<lparr>surfaceFire :=
        runSurfaceFireCall ext (snd run) (surfaceInputs (fst run)) (surfaceFire (fst run))\<rparr>"

text \<open>
  \<^verbatim>\<open>Surface::calculateFlameLength\<close>. The two conversions of the unit library are
  parameters; the unit enumerations are type parameters.
\<close>

definition calculateFlameLength ::
  "(real \<Rightarrow> 'fiu \<Rightarrow> real) \<Rightarrow> (real \<Rightarrow> 'lu \<Rightarrow> real) \<Rightarrow> real \<Rightarrow> 'fiu \<Rightarrow> 'lu \<Rightarrow> real"
where
  "calculateFlameLength firelineIntensityToBaseUnits lengthFromBaseUnits firelineIntensityArg
     firelineIntensityUnits flameLengthUnits =
     (let firelineIntensity1 = firelineIntensityToBaseUnits firelineIntensityArg firelineIntensityUnits;
          flameLength1 = (if firelineIntensity1 < 0.0000001 then 0
                          else 0.45 * firelineIntensity1 powr 0.46)
      in lengthFromBaseUnits flameLength1 flameLengthUnits)"

text \<open>
  The getters of \<^verbatim>\<open>Surface\<close> that \<^verbatim>\<open>crown.cpp\<close> calls. It calls them without a unit
  argument and uses the results as base unit values, which is what they are here.
\<close>

definition getHeatPerUnitArea :: "Surface \<Rightarrow> real" where
  "getHeatPerUnitArea s = heatPerUnitArea (surfaceFire s)"

definition getFirelineIntensity :: "Surface \<Rightarrow> real" where
  "getFirelineIntensity s = firelineIntensity (surfaceFire s)"


subsection \<open>Copying surface inputs\<close>

text \<open>
  \<^verbatim>\<open>SurfaceInputs::memberwiseCopyAssignment\<close>, member by member in the order of the
  code. The four chaparral parameters are not among the members it copies: the object
  assigned to keeps its own.
\<close>

definition memberwiseCopyAssignment :: "SurfaceInputs \<Rightarrow> SurfaceInputs \<Rightarrow> SurfaceInputs" where
  "memberwiseCopyAssignment rhs this =
     this\<lparr>airTemperature := airTemperature rhs,
          fuelModelNumber := fuelModelNumber rhs,
          moistureOneHour := moistureOneHour rhs,
          moistureTenHour := moistureTenHour rhs,
          moistureHundredHour := moistureHundredHour rhs,
          moistureLiveHerbaceous := moistureLiveHerbaceous rhs,
          moistureLiveWoody := moistureLiveWoody rhs,
          windSpeed := windSpeed rhs,
          windDirection := windDirection rhs,
          slope := slope rhs,
          aspect := aspect rhs,
          moistureDeadAggregate := moistureDeadAggregate rhs,
          moistureLiveAggregate := moistureLiveAggregate rhs,
          moistureInputMode := moistureInputMode rhs,
          isCalculatingScorchHeight := isCalculatingScorchHeight rhs,
          isUsingTwoFuelModelsFlag := isUsingTwoFuelModelsFlag rhs,
          secondFuelModelNumber := secondFuelModelNumber rhs,
          firstFuelModelCoverage := firstFuelModelCoverage rhs,
          isUsingPalmettoGallberry := isUsingPalmettoGallberry rhs,
          ageOfRough := ageOfRough rhs,
          heightOfUnderstory := heightOfUnderstory rhs,
          palmettoCoverage := palmettoCoverage rhs,
          overstoryBasalArea := overstoryBasalArea rhs,
          isUsingWesternAspen := isUsingWesternAspen rhs,
          aspenFuelModelNumber := aspenFuelModelNumber rhs,
          aspenCuringLevel := aspenCuringLevel rhs,
          dbh := dbh rhs,
          aspenFireSeverity := aspenFireSeverity rhs,
          isUsingChaparral := isUsingChaparral rhs,
          elapsedTime := elapsedTime rhs,
          canopyCover := canopyCover rhs,
          canopyHeight := canopyHeight rhs,
          crownRatio := crownRatio rhs,
          userProvidedWindAdjustmentFactor := userProvidedWindAdjustmentFactor rhs,
          twoFuelModelsMethod := twoFuelModelsMethod rhs,
          windHeightInputMode := windHeightInputMode rhs,
          windAndSpreadOrientationMode := windAndSpreadOrientationMode rhs,
          windAdjustmentFactorCalculationMethod := windAdjustmentFactorCalculationMethod rhs,
          surfaceFireSpreadDirectionMode := surfaceFireSpreadDirectionMode rhs,
          moistureScenarios := moistureScenarios rhs,
          currentMoistureScenarioName := currentMoistureScenarioName rhs,
          currentMoistureScenarioIndex := currentMoistureScenarioIndex rhs,
          moistureValuesBySizeClass := moistureValuesBySizeClass rhs\<rparr>"

subsection \<open>Crown\<close>

text \<open>
  Neither \<^verbatim>\<open>crown.h\<close> nor \<^verbatim>\<open>crownInputs.h\<close> is among the sources. The canopy inputs
  are the three values that \<^verbatim>\<open>crown.cpp\<close> reads through the getters of
  \<^verbatim>\<open>CrownInputs\<close>; the data members of \<^verbatim>\<open>Crown\<close> are those that \<^verbatim>\<open>crown.cpp\<close>
  assigns.
\<close>

record CrownInputs =
  canopyBulkDensity :: real
  canopyBaseHeight :: real
  foliarMoisture :: real

definition getCanopyBulkDensity :: "CrownInputs \<Rightarrow> real" where
  "getCanopyBulkDensity ci = canopyBulkDensity ci"

definition getCanopyBaseHeight :: "CrownInputs \<Rightarrow> real" where
  "getCanopyBaseHeight ci = canopyBaseHeight ci"

definition getFoliarMoisture :: "CrownInputs \<Rightarrow> real" where
  "getFoliarMoisture ci = foliarMoisture ci"

text \<open>
  \<^verbatim>\<open>Crown\<close> keeps four pointers to objects of its caller and one \<^verbatim>\<open>SurfaceInputs\<close> of
  its own, \<^verbatim>\<open>crownDeepCopyOfSurfaceInputs_\<close>. A pointer is an address; the caller's
  objects live in a store from addresses to objects, and the copy lives inside the
  \<^verbatim>\<open>Crown\<close> object, so that it can be told which of the two a method writes.
\<close>

type_synonym addr = nat

record Crown =
  crownInputsPtr :: addr
  fuelModelSetPtr :: addr
  surfaceInputsPtr :: addr
  surfacePtr :: addr
  crownDeepCopyOfSurfaceInputs :: SurfaceInputs
  windSpeedAtTwentyFeet :: real
  crownFireSpreadRate :: real
  crownCopyOfSurfaceHeatPerUnitArea :: real
  crownCopyOfSurfaceFirelineIntensity :: real
  crownFuelLoad :: real
  canopyHeatPerUnitArea :: real
  crownFireHeatPerUnitArea :: real
  crownFirelineIntensity :: real
  crownFlameLength :: real
  crownCriticalFireSpreadRate :: real
  crownCriticalSurfaceFireIntensity :: real
  crownPowerOfFire :: real
  crownPowerOfWind :: real
  crownFirePowerRatio :: real
  crownFireActiveRatio :: real

record World =
  surfaceInputsAt :: "addr \<Rightarrow> SurfaceInputs"
  crownInputsAt :: "addr \<Rightarrow> CrownInputs"
  surfaceAt :: "addr \<Rightarrow> Surface"
  crown :: Crown

text \<open>
  The member \<^verbatim>\<open>crownFireSpread_\<close> is a surface spread engine (not among the sources)
  constructed on the fuel model set and on a reference to
  \<^verbatim>\<open>crownDeepCopyOfSurfaceInputs_\<close>. Modelled from the spec: the engine holds a
  non-owning reference to its inputs and computes its state afresh from them at each
  invocation, so \<^verbatim>\<open>crownFireSpread_.calculateForwardSpreadRate()\<close> is a function of the
  contents of the copy at the time of the call. That function, the engine's flame length
  law and the ten-metre conversion of \<^verbatim>\<open>WindSpeedUtility\<close> are parameters.
\<close>

record CrownExternals =
  calculateForwardSpreadRate :: "SurfaceInputs \<Rightarrow> real"
  crownFireSpreadCalculateFlameLength :: "real \<Rightarrow> real"
  windSpeedAtTwentyFeetFromTenMeter :: "real \<Rightarrow> real"

text \<open>
  \<^verbatim>\<open>crown.cpp\<close> calls \<^verbatim>\<open>setSlope\<close>, \<^verbatim>\<open>setWindSpeed\<close> and \<^verbatim>\<open>getWindSpeed\<close> with
  the value alone, against a declaration that is not among the sources. The value is
  stored and read as it is, in the member that the setters and the getter of
  \<^verbatim>\<open>surfaceInputs.cpp\<close> use; no reference height is passed, so none is stored.
\<close>

definition setSlopeValue :: "real \<Rightarrow> SurfaceInputs \<Rightarrow> SurfaceInputs" where
  "setSlopeValue slopeArg si = si\<lparr>slope := slopeArg\<rparr>"

definition setWindSpeedValue :: "real \<Rightarrow> SurfaceInputs \<Rightarrow> SurfaceInputs" where
  "setWindSpeedValue w si = si\<lparr>windSpeed := w\<rparr>"

definition getWindSpeed :: "SurfaceInputs \<Rightarrow> real" where
  "getWindSpeed si = windSpeed si"

text \<open>
  The constructor \<^verbatim>\<open>Crown::Crown\<close>. The member \<^verbatim>\<open>crownDeepCopyOfSurfaceInputs_\<close> is
  default constructed on the storage of the \<^verbatim>\<open>Crown\<close> and then assigned from the
  caller's inputs; \<^verbatim>\<open>SurfaceInputs::operator=\<close> runs
  \<^verbatim>\<open>memberwiseCopyAssignment\<close>, as the copy and the caller's object are two objects.
  The other data members keep what the storage held.
\<close>

definition Crown_constructor :: "real \<Rightarrow> addr \<Rightarrow> addr \<Rightarrow> addr \<Rightarrow> addr \<Rightarrow> World \<Rightarrow> World" where
  "Crown_constructor oneHourInBaseUnits fuelModelSetRef crownInputsRef surfaceInputsRef
     surfaceRef w =
     (let c1 = (crown w)\<lparr>crownDeepCopyOfSurfaceInputs :=
                 initializeMembers oneHourInBaseUnits (crownDeepCopyOfSurfaceInputs (crown w))\<rparr>;
          c2 = c1\<lparr>crownInputsPtr := crownInputsRef\<rparr>;
          c3 = c2\<lparr>fuelModelSetPtr := fuelModelSetRef\<rparr>;
          c4 = c3\<lparr>surfaceInputsPtr := surfaceInputsRef\<rparr>;
          c5 = c4\<lparr>surfacePtr := surfaceRef\<rparr>;
          c6 = c5\<lparr>crownDeepCopyOfSurfaceInputs :=
                 memberwiseCopyAssignment (surfaceInputsAt w (surfaceInputsPtr c5))
                   (crownDeepCopyOfSurfaceInputs c5)\<rparr>
      in w\<lparr>crown := c6\<rparr>)"

text \<open>
  Section 7 of the spec asks that no quotient with a near-zero denominator is formed,
  near zero meaning below the epsilon \<open>1e-7\<close> in absolute value. To make this a property
  of the model, a division by a computed denominator has no result when the denominator
  is near zero; divisions by the constants 60 and 129 are written as they are.
\<close>

definition nearZero :: "real \<Rightarrow> bool" where
  "nearZero d = (\<bar>d\<bar> < 0.0000001)"

definition divideGuarded :: "real \<Rightarrow> real \<Rightarrow> real option" where
  "divideGuarded x d = (if nearZero d then None else Some (x / d))"

text \<open>The methods of \<^verbatim>\<open>Crown\<close>, in the order in which \<^verbatim>\<open>crown.cpp\<close> calls them.\<close>

definition calculateWindSpeedAtTwentyFeet :: "CrownExternals \<Rightarrow> World \<Rightarrow> real \<times> World" where
  "calculateWindSpeedAtTwentyFeet ext w =
     (let c1 = (crown w)\<lparr>windSpeedAtTwentyFeet := - 1\<rparr>;
          windHeightInputMode1 = getWindHeightInputMode (surfaceInputsAt w (surfaceInputsPtr c1));
          c2 = (if windHeightInputMode1 = TWENTY_FOOT then
                  c1\<lparr>windSpeedAtTwentyFeet :=
                       getWindSpeed (surfaceInputsAt w (surfaceInputsPtr c1))\<rparr>
                else if windHeightInputMode1 = TEN_METER then
                  (let windSpeedAtTenMeters =
                         getWindSpeed (surfaceInputsAt w (surfaceInputsPtr c1))
                   in c1\<lparr>windSpeedAtTwentyFeet :=
                          windSpeedAtTwentyFeetFromTenMeter ext windSpeedAtTenMeters\<rparr>)
                else c1)
      in (windSpeedAtTwentyFeet c2, w\<lparr>crown := c2\<rparr>))"

definition calculateCrownFuelLoad :: "World \<Rightarrow> World" where
  "calculateCrownFuelLoad w =
     (let c = crown w;
          canopyBulkDensity1 = getCanopyBulkDensity (crownInputsAt w (crownInputsPtr c));
          canopyBaseHeight1 = getCanopyBaseHeight (crownInputsAt w (crownInputsPtr c));
          canopyHeight1 = getCanopyHeight (surfaceInputsAt w (surfaceInputsPtr c))
      in w\<lparr>crown := c\<lparr>crownFuelLoad := canopyBulkDensity1 * (canopyHeight1 - canopyBaseHeight1)\<rparr>\<rparr>)"

definition calculateCanopyHeatPerUnitArea :: "World \<Rightarrow> World" where
  "calculateCanopyHeatPerUnitArea w =
     (let c = crown w; LOW_HEAT_OF_COMBUSTION = 8000
      in w\<lparr>crown := c\<lparr>canopyHeatPerUnitArea := crownFuelLoad c * LOW_HEAT_OF_COMBUSTION\<rparr>\<rparr>)"

definition calculateCrownFireHeatPerUnitArea :: "World \<Rightarrow> World" where
  "calculateCrownFireHeatPerUnitArea w =
     (let c = crown w
      in w\<lparr>crown := c\<lparr>crownFireHeatPerUnitArea :=
             crownCopyOfSurfaceHeatPerUnitArea c + canopyHeatPerUnitArea c\<rparr>\<rparr>)"

definition calculateCrownFirelineIntensity :: "World \<Rightarrow> World" where
  "calculateCrownFirelineIntensity w =
     (let c = crown w
      in w\<lparr>crown := c\<lparr>crownFirelineIntensity :=
             (crownFireSpreadRate c / 60) * crownFireHeatPerUnitArea c\<rparr>\<rparr>)"

text \<open>
  \<^verbatim>\<open>pow\<close> is \<^term>\<open>(powr)\<close>: they agree on a positive base and on base 0 with a
  positive exponent. On a negative base with an exponent that is not an integer,
  \<^verbatim>\<open>pow\<close> gives NaN, which the model does not have; no statement below is about the
  crown flame length.
\<close>

definition calculateCrownFlameLength :: "World \<Rightarrow> real \<times> World" where
  "calculateCrownFlameLength w =
     (let c1 = (crown w)\<lparr>crownFlameLength := 0.2 * crownFirelineIntensity (crown w) powr (2 / 3)\<rparr>
      in (crownFlameLength c1, w\<lparr>crown := c1\<rparr>))"

definition calculateCrownCriticalFireSpreadRate :: "World \<Rightarrow> (real \<times> World) option" where
  "calculateCrownCriticalFireSpreadRate w =
   do {
     let canopyBulkDensity1 = getCanopyBulkDensity (crownInputsAt w (crownInputsPtr (crown w)));
     let LBS_PER_CUBIC_FOOT_TO_KG_PER_CUBIC_METER = 16.0185;
     let convertedBulkDensity = LBS_PER_CUBIC_FOOT_TO_KG_PER_CUBIC_METER * canopyBulkDensity1;
     r \<leftarrow> (if convertedBulkDensity < 0.0000001 then Some 0
           else divideGuarded 3 convertedBulkDensity);
     let c1 = (crown w)\<lparr>crownCriticalFireSpreadRate := r\<rparr>;
     let METERS_PER_MIN_TO_FEET_PER_MIN = 3.28084;
     let c2 = c1\<lparr>crownCriticalFireSpreadRate :=
                  crownCriticalFireSpreadRate c1 * METERS_PER_MIN_TO_FEET_PER_MIN\<rparr>;
     Some (crownCriticalFireSpreadRate c2, w\<lparr>crown := c2\<rparr>)
   }"

definition calculateCrownCriticalSurfaceFireIntensity :: "World \<Rightarrow> real \<times> World" where
  "calculateCrownCriticalSurfaceFireIntensity w =
     (let KILOWATTS_PER_METER_TO_BTUS_PER_FOOT_PER_SECOND = 0.288672;
          FEET_TO_METERS = 0.3048;
          foliarMoisture1 = getFoliarMoisture (crownInputsAt w (crownInputsPtr (crown w)));
          foliarMoisture2 = (if foliarMoisture1 < 30 then 30 else foliarMoisture1);
          crownBaseHeight1 = getCanopyBaseHeight (crownInputsAt w (crownInputsPtr (crown w)));
          crownBaseHeight2 = crownBaseHeight1 * FEET_TO_METERS;
          crownBaseHeight3 = (if crownBaseHeight2 < 0.1 then 0.1 else crownBaseHeight2);
          c1 = (crown w)\<lparr>crownCriticalSurfaceFireIntensity :=
                 (0.010 * crownBaseHeight3 * (450 + 25.9 * foliarMoisture2)) powr 1.5\<rparr>;
          c2 = c1\<lparr>crownCriticalSurfaceFireIntensity :=
                 crownCriticalSurfaceFireIntensity c1
                   * KILOWATTS_PER_METER_TO_BTUS_PER_FOOT_PER_SECOND\<rparr>
      in (crownCriticalSurfaceFireIntensity c2, w\<lparr>crown := c2\<rparr>))"

definition calculateCrownCriticalSurfaceFlameLength :: "CrownExternals \<Rightarrow> World \<Rightarrow> real \<times> World" where
  "calculateCrownCriticalSurfaceFlameLength ext w =
     (let criticalSurfaceFlameLength =
            crownFireSpreadCalculateFlameLength ext (crownCriticalSurfaceFireIntensity (crown w))
      in (criticalSurfaceFlameLength, w))"

definition calculateCrownPowerOfFire :: "World \<Rightarrow> World" where
  "calculateCrownPowerOfFire w =
     w\<lparr>crown := (crown w)\<lparr>crownPowerOfFire := crownFirelineIntensity (crown w) / 129\<rparr>\<rparr>"

definition calcuateCrownPowerOfWind :: "CrownExternals \<Rightarrow> World \<Rightarrow> World" where
  "calcuateCrownPowerOfWind ext w =
     (let MILES_PER_HOUR_TO_FEET_PER_MINUTE = 5280 / 60;
          SECONDS_PER_MINUTE = 60;
          (r, w1) = calculateWindSpeedAtTwentyFeet ext w;
          c1 = (crown w1)\<lparr>windSpeedAtTwentyFeet := r\<rparr>;
          windSpeedInFeetPerMinute = windSpeedAtTwentyFeet c1 * MILES_PER_HOUR_TO_FEET_PER_MINUTE;
          WindspeedMinusCrownROS1 =
            (windSpeedInFeetPerMinute - crownFireSpreadRate c1) / SECONDS_PER_MINUTE;
          WindspeedMinusCrownROS2 =
            (if WindspeedMinusCrownROS1 < 0.0000001 then 0 else WindspeedMinusCrownROS1)
      in w1\<lparr>crown := c1\<lparr>crownPowerOfWind :=
              0.00106 * (WindspeedMinusCrownROS2 * WindspeedMinusCrownROS2
                         * WindspeedMinusCrownROS2)\<rparr>\<rparr>)"

definition calcualteCrownFirePowerRatio :: "World \<Rightarrow> (real \<times> World) option" where
  "calcualteCrownFirePowerRatio w =
   do {
     r \<leftarrow> (if crownPowerOfWind (crown w) > 0.0000001
           then divideGuarded (crownPowerOfFire (crown w)) (crownPowerOfWind (crown w))
           else Some 0);
     let c1 = (crown w)\<lparr>crownFirePowerRatio := r\<rparr>;
     Some (crownFirePowerRatio c1, w\<lparr>crown := c1\<rparr>)
   }"

definition calculateCrownFireTransitionRatio :: "World \<Rightarrow> (real \<times> World) option" where
  "calculateCrownFireTransitionRatio w =
   do {
     crownFireTransitionRatio \<leftarrow>
       (if crownCriticalSurfaceFireIntensity (crown w) < 0.0000001 then Some 0
        else divideGuarded (crownCopyOfSurfaceFirelineIntensity (crown w))
               (crownCriticalSurfaceFireIntensity (crown w)));
     Some (crownFireTransitionRatio, w)
   }"

definition calculateCrownFireActiveRatio :: "World \<Rightarrow> (real \<times> World) option" where
  "calculateCrownFireActiveRatio w =
   do {
     r \<leftarrow> (if crownCriticalFireSpreadRate (crown w) < 0.0000001 then Some 0
           else divideGuarded (crownFireSpreadRate (crown w))
                  (crownCriticalFireSpreadRate (crown w)));
     let c1 = (crown w)\<lparr>crownFireActiveRatio := r\<rparr>;
     Some (crownFireActiveRatio c1, w\<lparr>crown := c1\<rparr>)
   }"

text \<open>
  \<^verbatim>\<open>Crown::calculateCrownFireSpreadRate\<close>. Every setter call is on the member
  \<^verbatim>\<open>crownDeepCopyOfSurfaceInputs_\<close>; the caller's objects are read through the pointers.
\<close>

definition calculateCrownFireSpreadRate :: "CrownExternals \<Rightarrow> World \<Rightarrow> (real \<times> World) option" where
  "calculateCrownFireSpreadRate ext w0 =
   do {
     let w1 = w0\<lparr>crown := (crown w0)\<lparr>crownDeepCopyOfSurfaceInputs :=
                 setFuelModelNumber 10 (crownDeepCopyOfSurfaceInputs (crown w0))\<rparr>\<rparr>;
     let w2 = w1\<lparr>crown := (crown w1)\<lparr>crownDeepCopyOfSurfaceInputs :=
                 setSlopeValue 0 (crownDeepCopyOfSurfaceInputs (crown w1))\<rparr>\<rparr>;
     let w3 = w2\<lparr>crown := (crown w2)\<lparr>crownDeepCopyOfSurfaceInputs :=
                 setWindDirection 0 (crownDeepCopyOfSurfaceInputs (crown w2))\<rparr>\<rparr>;
     let windAdjustmentFactor = 0.4;
     let (r4, w4) = calculateWindSpeedAtTwentyFeet ext w3;
     let w5 = w4\<lparr>crown := (crown w4)\<lparr>windSpeedAtTwentyFeet := r4\<rparr>\<rparr>;
     let midflameWindSpeed = windAdjustmentFactor * windSpeedAtTwentyFeet (crown w5);
     let w6 = w5\<lparr>crown := (crown w5)\<lparr>crownDeepCopyOfSurfaceInputs :=
                 setWindSpeedValue midflameWindSpeed (crownDeepCopyOfSurfaceInputs (crown w5))\<rparr>\<rparr>;
     let w7 = w6\<lparr>crown := (crown w6)\<lparr>crownFireSpreadRate :=
                 3.34 * calculateForwardSpreadRate ext (crownDeepCopyOfSurfaceInputs (crown w6))\<rparr>\<rparr>;
     let w8 = w7\<lparr>crown := (crown w7)\<lparr>crownCopyOfSurfaceHeatPerUnitArea :=
                 getHeatPerUnitArea (surfaceAt w7 (surfacePtr (crown w7)))\<rparr>\<rparr>;
     let w9 = w8\<lparr>crown := (crown w8)\<lparr>crownCopyOfSurfaceFirelineIntensity :=
                 getFirelineIntensity (surfaceAt w8 (surfacePtr (crown w8)))\<rparr>\<rparr>;
     let w10 = calculateCrownFuelLoad w9;
     let w11 = calculateCanopyHeatPerUnitArea w10;
     let w12 = calculateCrownFireHeatPerUnitArea w11;
     let w13 = calculateCrownFirelineIntensity w12;
     let (r14, w14) = calculateCrownFlameLength w13;
     (r15, w15) \<leftarrow> calculateCrownCriticalFireSpreadRate w14;
     let (r16, w16) = calculateCrownCriticalSurfaceFireIntensity w15;
     let (r17, w17) = calculateCrownCriticalSurfaceFlameLength ext w16;
     let w18 = calculateCrownPowerOfFire w17;
     let w19 = calcuateCrownPowerOfWind ext w18;
     Some (crownFireSpreadRate (crown w19), w19)
   }"


subsection \<open>Notions used in the statements\<close>

text \<open>
  The moisture values can be refreshed: the inputs are not in scenario mode with a null
  scenario table.
\<close>

definition moistureSourceAvailable :: "SurfaceInputs \<Rightarrow> bool" where
  "moistureSourceAvailable si =
     (moistureInputMode si \<noteq> MoistureScenario \<or> moistureScenarios si \<noteq> None)"

text \<open>
  The standardized scenario of the crown fire engine, in the words of the spec: fuel model
  10, zero slope, wind direction 0 (upslope), and as wind speed the 20-ft wind speed
  scaled by the wind adjustment factor 0.4; every other input is kept.
\<close>

definition crownScenario :: "real \<Rightarrow> SurfaceInputs \<Rightarrow> SurfaceInputs" where
  "crownScenario windSpeedAtTwentyFeetArg si =
     si\<lparr>fuelModelNumber := 10, slope := 0, windDirection := 0,
        windSpeed := 0.4 * windSpeedAtTwentyFeetArg\<rparr>"

text \<open>
  The 20-ft wind speed of given inputs, in the words of the spec (wind-height reducer):
  the stored wind speed when its reference height is 20 ft, the ten-metre conversion of
  it when the reference height is 10 m, and the error sentinel \<open>-1\<close> for any other
  reference height.
\<close>

definition specTwentyFootWindSpeed :: "CrownExternals \<Rightarrow> SurfaceInputs \<Rightarrow> real" where
  "specTwentyFootWindSpeed ext si =
     (case windHeightInputMode si of
        TWENTY_FOOT \<Rightarrow> windSpeed si
      | TEN_METER \<Rightarrow> windSpeedAtTwentyFeetFromTenMeter ext (windSpeed si)
      | DirectMidflame \<Rightarrow> - 1)"

definition surfaceOutputsAllZero :: "SurfaceFire \<Rightarrow> bool" where
  "surfaceOutputsAllZero sf =
     (spreadRate sf = 0 \<and> firelineIntensity sf = 0 \<and> flameLength sf = 0
      \<and> heatPerUnitArea sf = 0)"

text \<open>
  The critical crown fire spread rate followed by the active ratio, which reads the
  critical rate that the first call stored: the two results and the final state.
\<close>

definition criticalSpreadRateThenActiveRatio :: "World \<Rightarrow> (real \<times> real \<times> World) option" where
  "criticalSpreadRateThenActiveRatio w =
   do {
     (criticalRate, w1) \<leftarrow> calculateCrownCriticalFireSpreadRate w;
     (activeRatio, w2) \<leftarrow> calculateCrownFireActiveRatio w1;
     Some (criticalRate, activeRatio, w2)
   }"

subsection \<open>Concrete inputs\<close>

text \<open>
  A caller that works in base units throughout, for which every conversion of the unit
  library returns its argument; one hour is 60 minutes in base units.
\<close>

definition sameUnits :: "real \<Rightarrow> unit \<Rightarrow> real" where
  "sameUnits x u = x"

definition baseUnitConversions :: "(unit, unit, unit, unit, unit) UnitConversions" where
  "baseUnitConversions =
     \<lparr> moistureToBaseUnits = sameUnits, speedToBaseUnits = sameUnits,
       slopeToBaseUnits = sameUnits, coverToBaseUnits = sameUnits,
       lengthToBaseUnits = sameUnits \<rparr>"

text \<open>Storage of a \<^verbatim>\<open>SurfaceInputs\<close> object before construction: all bytes zero.\<close>

definition zeroedStorage :: SurfaceInputs where
  "zeroedStorage =
     \<lparr> airTemperature = 0, fuelModelNumber = 0, secondFuelModelNumber = 0,
       moistureOneHour = 0, moistureTenHour = 0, moistureHundredHour = 0,
       moistureDeadAggregate = 0, moistureLiveHerbaceous = 0, moistureLiveWoody = 0,
       moistureLiveAggregate = 0, slope = 0, aspect = 0, windSpeed = 0, windDirection = 0,
       moistureInputMode = BySizeClass, isCalculatingScorchHeight = False,
       isUsingTwoFuelModelsFlag = False, isUsingPalmettoGallberry = False,
       isUsingWesternAspen = False, isUsingChaparral = False,
       windAndSpreadOrientationMode = RelativeToUpslope, windHeightInputMode = DirectMidflame,
       twoFuelModelsMethod = NoMethod, windAdjustmentFactorCalculationMethod = UserInput,
       surfaceFireSpreadDirectionMode = FromIgnitionPoint, firstFuelModelCoverage = 0,
       ageOfRough = 0, heightOfUnderstory = 0, palmettoCoverage = 0, overstoryBasalArea = 0,
       canopyCover = 0, canopyHeight = 0, crownRatio = 0, aspenFuelModelNumber = 0,
       aspenCuringLevel = 0, aspenFireSeverity = Low, dbh = 0, elapsedTime = 0,
       userProvidedWindAdjustmentFactor = 0, moistureScenarios = None,
       currentMoistureScenarioName = [], currentMoistureScenarioIndex = 0,
       moistureValuesBySizeClass = (\<lambda>c. 0),
       chaparralFuelType = 0, chaparralFuelBedDepth = 0, chaparralFuelDeadLoadFraction = 0,
       chaparralTotalFuelLoad = 0 \<rparr>"

text \<open>Default constructed surface inputs.\<close>

definition defaultSurfaceInputs :: SurfaceInputs where
  "defaultSurfaceInputs = initializeMembers 60 zeroedStorage"

text \<open>
  A catalog in which fuel model 0 is the empty, undefined entry and every other number is
  a defined model with some load.
\<close>

definition exampleFuelModels :: FuelModels where
  "exampleFuelModels =
     \<lparr> fuelModelIsAllFuelLoadZero = (\<lambda>n. n = 0), fuelModelIsDefined = (\<lambda>n. n \<noteq> 0) \<rparr>"

definition restingSurfaceFire :: SurfaceFire where
  "restingSurfaceFire =
     \<lparr> spreadRate = 0, firelineIntensity = 0, flameLength = 0, heatPerUnitArea = 0 \<rparr>"

text \<open>A freshly constructed surface, whose fuel model number is 0.\<close>

definition defaultSurface :: Surface where
  "defaultSurface = \<lparr> surfaceInputs = defaultSurfaceInputs, surfaceFire = restingSurfaceFire \<rparr>"

text \<open>The same surface with the chaparral special fuel switched on.\<close>

definition chaparralSurface :: Surface where
  "chaparralSurface = defaultSurface\<lparr>surfaceInputs := setIsUsingChaparral True defaultSurfaceInputs\<rparr>"

text \<open>
  The example scenario of the spec for the critical surface intensity: crown base height
  0.05 ft and foliar moisture 20 percent, with a canopy bulk density of 0.01 lb/ft3.
\<close>

definition lowCanopyInputs :: CrownInputs where
  "lowCanopyInputs = \<lparr> canopyBulkDensity = 0.01, canopyBaseHeight = 0.05, foliarMoisture = 20 \<rparr>"

definition blankCrown :: Crown where
  "blankCrown =
     \<lparr> crownInputsPtr = 0, fuelModelSetPtr = 0, surfaceInputsPtr = 0, surfacePtr = 0,
       crownDeepCopyOfSurfaceInputs = zeroedStorage,
       windSpeedAtTwentyFeet = 0, crownFireSpreadRate = 0,
       crownCopyOfSurfaceHeatPerUnitArea = 0, crownCopyOfSurfaceFirelineIntensity = 0,
       crownFuelLoad = 0, canopyHeatPerUnitArea = 0, crownFireHeatPerUnitArea = 0,
       crownFirelineIntensity = 0, crownFlameLength = 0, crownCriticalFireSpreadRate = 0,
       crownCriticalSurfaceFireIntensity = 0, crownPowerOfFire = 0, crownPowerOfWind = 0,
       crownFirePowerRatio = 0, crownFireActiveRatio = 0 \<rparr>"

text \<open>
  A world with default surface inputs, a default surface and the canopy inputs above at
  every address, and a \<^verbatim>\<open>Crown\<close> constructed on them.
\<close>

definition exampleWorld :: World where
  "exampleWorld =
     Crown_constructor 60 0 0 0 0
       \<lparr> surfaceInputsAt = (\<lambda>a. defaultSurfaceInputs),
         crownInputsAt = (\<lambda>a. lowCanopyInputs),
         surfaceAt = (\<lambda>a. defaultSurface),
         crown = blankCrown \<rparr>"

text \<open>The same world after the caller has set a wind of 10 at 20 ft, then at 10 m.\<close>

definition twentyFootWorld :: World where
  "twentyFootWorld =
     exampleWorld\<lparr>surfaceInputsAt :=
       (\<lambda>a. setWindSpeed baseUnitConversions 10 () TWENTY_FOOT defaultSurfaceInputs)\<rparr>"

definition tenMeterWorld :: World where
  "tenMeterWorld =
     exampleWorld\<lparr>surfaceInputsAt :=
       (\<lambda>a. setWindSpeed baseUnitConversions 10 () TEN_METER defaultSurfaceInputs)\<rparr>"

text \<open>
  A world without canopy fuel (bulk density 0), and one whose crown fire spreads at
  100 ft/min under the canopy of the example world.
\<close>

definition bareCanopyWorld :: World where
  "bareCanopyWorld =
     exampleWorld\<lparr>crownInputsAt := (\<lambda>a. lowCanopyInputs\<lparr>canopyBulkDensity := 0\<rparr>),
                  crown := (crown exampleWorld)\<lparr>crownFireSpreadRate := 100\<rparr>\<rparr>"

definition activeCrownWorld :: World where
  "activeCrownWorld = exampleWorld\<lparr>crown := (crown exampleWorld)\<lparr>crownFireSpreadRate := 100\<rparr>\<rparr>"

text \<open>
  A world whose canopy bulk density is \<open>10\<^sup>8\<close> lb/ft3 and whose crown fire spread rate
  is 1 ft/min.
\<close>

definition denseCanopyWorld :: World where
  "denseCanopyWorld =
     exampleWorld\<lparr>crownInputsAt := (\<lambda>a. lowCanopyInputs\<lparr>canopyBulkDensity := 100000000\<rparr>),
                  crown := (crown exampleWorld)\<lparr>crownFireSpreadRate := 1\<rparr>\<rparr>"



text \<open>Parameters for the external calculations, where a concrete one is needed.\<close>

definition exampleCrownExternals :: CrownExternals where
  "exampleCrownExternals =
     \<lparr> calculateForwardSpreadRate = (\<lambda>si. windSpeed si),
       crownFireSpreadCalculateFlameLength = (\<lambda>i. 0),
       windSpeedAtTwentyFeetFromTenMeter = (\<lambda>w. w / 1.15) \<rparr>"


definition exampleSurfaceFireExternals :: SurfaceFireExternals where
  "exampleSurfaceFireExternals =
     \<lparr> calculateForwardSpreadRateExt = (\<lambda>n h d m si sf. sf),
       calculateWeightedSpreadRateExt = (\<lambda>tm n1 c n2 h d m si sf. sf) \<rparr>"


section \<open>Properties\<close>

subsection \<open>Auxiliary facts\<close>

lemma memberwiseCopyAssignment_result:
  "memberwiseCopyAssignment rhs this =
     rhs\<lparr>chaparralFuelType := chaparralFuelType this,
         chaparralFuelBedDepth := chaparralFuelBedDepth this,
         chaparralFuelDeadLoadFraction := chaparralFuelDeadLoadFraction this,
         chaparralTotalFuelLoad := chaparralTotalFuelLoad this\<rparr>"
  by (rule SurfaceInputs.equality) (simp_all add: memberwiseCopyAssignment_def)

lemma divideGuarded_Some:
  "0.0000001 \<le> d \<Longrightarrow> divideGuarded x d = Some (x / d)"
  by (simp add: divideGuarded_def nearZero_def)

lemma calculateCrownCriticalFireSpreadRate_result:
  "calculateCrownCriticalFireSpreadRate w =
     Some ((if 16.0185 * canopyBulkDensity (crownInputsAt w (crownInputsPtr (crown w))) < 0.0000001
            then 0
            else 3 / (16.0185 * canopyBulkDensity (crownInputsAt w (crownInputsPtr (crown w))))
                 * 3.28084),
           w\<lparr>crown := (crown w)\<lparr>crownCriticalFireSpreadRate :=
               (if 16.0185 * canopyBulkDensity (crownInputsAt w (crownInputsPtr (crown w))) < 0.0000001
                then 0
                else 3 / (16.0185 * canopyBulkDensity (crownInputsAt w (crownInputsPtr (crown w))))
                     * 3.28084)\<rparr>\<rparr>)"
  by (simp add: calculateCrownCriticalFireSpreadRate_def getCanopyBulkDensity_def
      divideGuarded_Some Let_def)

lemma calculateWindSpeedAtTwentyFeet_frame:
  "snd (calculateWindSpeedAtTwentyFeet ext w) =
     w\<lparr>crown := (crown w)\<lparr>windSpeedAtTwentyFeet := fst (calculateWindSpeedAtTwentyFeet ext w)\<rparr>\<rparr>"
  by (simp add: calculateWindSpeedAtTwentyFeet_def Let_def)

lemma calculateWindSpeedAtTwentyFeet_value:
  "fst (calculateWindSpeedAtTwentyFeet ext w) =
     specTwentyFootWindSpeed ext (surfaceInputsAt w (surfaceInputsPtr (crown w)))"
  by (cases "windHeightInputMode (surfaceInputsAt w (surfaceInputsPtr (crown w)))")
     (simp_all add: calculateWindSpeedAtTwentyFeet_def specTwentyFootWindSpeed_def Let_def
        getWindHeightInputMode_def getWindSpeed_def)

lemma calculateCrownFireSpreadRate_result:
  "\<exists>w'. calculateCrownFireSpreadRate ext w =
       Some (3.34 * calculateForwardSpreadRate ext
               (crownScenario
                  (specTwentyFootWindSpeed ext (surfaceInputsAt w (surfaceInputsPtr (crown w))))
                  (crownDeepCopyOfSurfaceInputs (crown w))), w')
     \<and> surfaceInputsAt w' = surfaceInputsAt w
     \<and> crownInputsAt w' = crownInputsAt w
     \<and> surfaceAt w' = surfaceAt w
     \<and> crownDeepCopyOfSurfaceInputs (crown w') =
         crownScenario
           (specTwentyFootWindSpeed ext (surfaceInputsAt w (surfaceInputsPtr (crown w))))
           (crownDeepCopyOfSurfaceInputs (crown w))"
  unfolding calculateCrownFireSpreadRate_def
  by (simp add: Let_def split_beta calculateWindSpeedAtTwentyFeet_frame
      calculateWindSpeedAtTwentyFeet_value
      calculateCrownCriticalFireSpreadRate_result
      calculateCrownFuelLoad_def calculateCanopyHeatPerUnitArea_def
      calculateCrownFireHeatPerUnitArea_def calculateCrownFirelineIntensity_def
      calculateCrownFlameLength_def calculateCrownCriticalSurfaceFireIntensity_def
      calculateCrownCriticalSurfaceFlameLength_def calculateCrownPowerOfFire_def
      calcuateCrownPowerOfWind_def
      setFuelModelNumber_def setSlopeValue_def setWindDirection_def setWindSpeedValue_def
      crownScenario_def
      cong: if_cong)

lemma roundHalfEven_upper: "of_int (roundHalfEven y) \<le> y + 1 / 2"
  unfolding roundHalfEven_def Let_def by (auto; linarith)

lemma roundHalfEven_nonneg: "0 \<le> y \<Longrightarrow> 0 \<le> roundHalfEven y"
proof -
  assume "0 \<le> y"
  then have "0 \<le> \<lfloor>y\<rfloor>" by simp
  then show ?thesis unfolding roundHalfEven_def Let_def by auto
qed

lemma roundHalfEven_of_int: "roundHalfEven (of_int n) = n"
  by (simp add: roundHalfEven_def)

lemma roundToDouble_nonneg: "0 \<le> x \<Longrightarrow> 0 \<le> roundToDouble x"
proof -
  assume x: "0 \<le> x"
  have "0 \<le> (2::real) powr (of_int \<lfloor>log 2 \<bar>x\<bar>\<rfloor> - 52) *
      of_int (roundHalfEven (x / 2 powr (of_int \<lfloor>log 2 \<bar>x\<bar>\<rfloor> - 52)))"
    using x by (intro mult_nonneg_nonneg) (simp_all add: roundHalfEven_nonneg)
  then show ?thesis by (simp add: roundToDouble_def Let_def)
qed

lemma roundToDouble_upper:
  assumes "0 \<le> x" and "x < 2 ^ 62"
  shows "roundToDouble x \<le> x + 256"
proof (cases "x = 0")
  case True
  then show ?thesis by (simp add: roundToDouble_def)
next
  case False
  with assms have pos: "0 < x" by simp
  define q :: real where "q = 2 powr (of_int \<lfloor>log 2 \<bar>x\<bar>\<rfloor> - 52)"
  have qpos: "0 < q" by (simp add: q_def)
  have "log 2 x < 62"
    using pos assms(2) by (simp add: log_less_iff powr_numeral)
  then have "\<lfloor>log 2 x\<rfloor> \<le> 61" by linarith
  then have "of_int \<lfloor>log 2 \<bar>x\<bar>\<rfloor> - 52 \<le> (9::real)" using pos by simp
  then have "q \<le> 2 powr 9" unfolding q_def by (intro powr_mono) simp_all
  then have q512: "q \<le> 512" by (simp add: powr_numeral)
  have "q * of_int (roundHalfEven (x / q)) \<le> q * (x / q + 1 / 2)"
    using qpos roundHalfEven_upper [of "x / q"] by (intro mult_left_mono) simp_all
  also have "\<dots> = x + q / 2" using qpos by (simp add: field_simps)
  also have "\<dots> \<le> x + 256" using q512 by simp
  finally show ?thesis using False by (simp add: roundToDouble_def Let_def q_def)
qed

lemma subtractFullTurns_returns:
  "0 \<le> x \<Longrightarrow> x \<le> 2 ^ 62
   \<Longrightarrow> \<exists>r. subtractFullTurns x = Some r \<and> 0 \<le> r \<and> r < 360"
proof (induction "nat \<lfloor>x\<rfloor>" arbitrary: x rule: less_induct)
  case less
  show ?case
  proof (cases "360 \<le> x")
    case False
    with less.prems show ?thesis by (simp add: subtractFullTurns.simps [of x])
  next
    case True
    let ?x' = "roundToDouble (x - 360)"
    have lo: "0 \<le> ?x'" using True by (intro roundToDouble_nonneg) simp
    have "?x' \<le> (x - 360) + 256"
      using True less.prems by (intro roundToDouble_upper) simp_all
    then have up: "?x' \<le> x - 104" by simp
    then have "\<lfloor>?x'\<rfloor> \<le> \<lfloor>x - 104\<rfloor>" by (rule floor_mono)
    then have "\<lfloor>?x'\<rfloor> < \<lfloor>x\<rfloor>" by linarith
    moreover have "0 \<le> \<lfloor>x\<rfloor>" using less.prems by simp
    ultimately have "nat \<lfloor>?x'\<rfloor> < nat \<lfloor>x\<rfloor>"
      using True by (simp add: zless_nat_conj)
    moreover have "?x' \<le> 2 ^ 62" using up less.prems by linarith
    ultimately obtain r where "subtractFullTurns ?x' = Some r" "0 \<le> r" "r < 360"
      using less.hyps [of ?x'] lo by blast
    with True show ?thesis by (simp add: subtractFullTurns.simps [of x])
  qed
qed

lemma normalised_wind_direction_returns:
  assumes "- 360 \<le> wd" and "wd \<le> 2 ^ 62"
  shows "\<exists>r. subtractFullTurns (if wd < 0 then roundToDouble (wd + 360) else wd) = Some r
           \<and> 0 \<le> r \<and> r < 360"
proof (cases "wd < 0")
  case False
  with assms show ?thesis using subtractFullTurns_returns [of wd] by simp
next
  case True
  have "0 \<le> roundToDouble (wd + 360)" using assms by (intro roundToDouble_nonneg) simp
  moreover have "roundToDouble (wd + 360) \<le> (wd + 360) + 256"
    using assms True by (intro roundToDouble_upper) simp_all
  then have "roundToDouble (wd + 360) \<le> 2 ^ 62" using True by simp
  ultimately show ?thesis
    using True subtractFullTurns_returns [of "roundToDouble (wd + 360)"] by simp
qed

lemma roundToDouble_exact:
  fixes e :: int
  assumes "2 powr of_int e \<le> \<bar>x\<bar>" and "\<bar>x\<bar> < 2 powr of_int (e + 1)"
    and "x / 2 powr (of_int e - 52) = of_int n"
  shows "roundToDouble x = x"
proof -
  have pos: "0 < \<bar>x\<bar>" using assms(1) by (smt (verit) powr_gt_zero)
  have "\<lfloor>log 2 \<bar>x\<bar>\<rfloor> = e"
  proof (rule floor_unique)
    show "of_int e \<le> log 2 \<bar>x\<bar>" using assms(1) pos by (simp add: le_log_iff)
    show "log 2 \<bar>x\<bar> < of_int e + 1" using assms(2) pos by (simp add: log_less_iff)
  qed
  moreover have "x \<noteq> 0" using pos by simp
  ultimately have "roundToDouble x = 2 powr (of_int e - 52) * of_int n"
    by (simp add: roundToDouble_def Let_def assms(3) roundHalfEven_of_int)
  also have "\<dots> = 2 powr (of_int e - 52) * (x / 2 powr (of_int e - 52))"
    by (simp add: assms(3))
  also have "\<dots> = x" by simp
  finally show ?thesis .
qed

lemma roundToDouble_minus_40: "roundToDouble (- 40) = - 40"
proof (rule roundToDouble_exact [where e = 5 and n = "- 40 * 2 ^ 47"])
  show "2 powr of_int 5 \<le> \<bar>- 40 :: real\<bar>" by (simp add: powr_numeral)
  show "\<bar>- 40 :: real\<bar> < 2 powr of_int (5 + 1)" by (simp add: powr_numeral)
  show "- 40 / 2 powr (of_int 5 - 52) = real_of_int (- 40 * 2 ^ 47)"
    by (simp add: powr_neg_numeral)
qed

lemma roundToDouble_absorbs: "roundToDouble 9999999999999999640 = 10000000000000000000"
proof -
  let ?x = "9999999999999999640 :: real"
  have fl: "\<lfloor>log 2 ?x\<rfloor> = 63"
  proof (rule floor_unique)
    show "of_int 63 \<le> log 2 ?x" by (simp add: le_log_iff powr_numeral)
    show "log 2 ?x < of_int 63 + 1" by (simp add: log_less_iff powr_numeral)
  qed
  have q: "(2::real) powr (of_int 63 - 52) = 2048" by (simp add: powr_numeral)
  have fr: "\<lfloor>?x / 2048\<rfloor> = 4882812499999999"
    by (rule floor_unique) simp_all
  have "roundHalfEven (?x / 2048) = 4882812500000000"
    unfolding roundHalfEven_def Let_def fr by simp
  then have "2048 * real_of_int (roundHalfEven (?x / 2048)) = 10000000000000000000"
    by simp
  then show ?thesis
    unfolding roundToDouble_def Let_def by (simp only: abs_numeral fl q) simp
qed

lemma subtractFullTurns_runs_forever: "subtractFullTurns 10000000000000000000 = None"
proof -
  have "x \<noteq> 10000000000000000000" if "subtractFullTurns x = Some y" for x y
  proof (rule subtractFullTurns.raw_induct
      [where P = "\<lambda>x y. x \<noteq> 10000000000000000000", OF _ that])
    fix f :: "real \<Rightarrow> real option" and x y :: real
    assume ih: "\<And>x y. f x = Some y \<Longrightarrow> x \<noteq> 10000000000000000000"
      and step: "(if 360 \<le> x then f (roundToDouble (x - 360)) else Some x) = Some y"
    show "x \<noteq> 10000000000000000000"
    proof
      assume "x = 10000000000000000000"
      with step have "f 10000000000000000000 = Some y" by (simp add: roundToDouble_absorbs)
      from ih [OF this] show False by simp
    qed
  qed
  then show ?thesis by (cases "subtractFullTurns 10000000000000000000") auto
qed

lemma updateMoistures_Some:
  assumes "moistureSourceAvailable si"
  shows "\<exists>m. updateMoisturesBasedOnInputMode si = Some (si\<lparr>moistureValuesBySizeClass := m\<rparr>)"
proof (cases "moistureInputMode si")
  case MoistureScenario
  with assms obtain ms where "moistureScenarios si = Some ms"
    by (auto simp: moistureSourceAvailable_def)
  with MoistureScenario show ?thesis
    by (auto simp add: updateMoisturesBasedOnInputMode_def)
qed (auto simp add: updateMoisturesBasedOnInputMode_def)

lemma updateMoistures_None:
  "\<not> moistureSourceAvailable si \<Longrightarrow> updateMoisturesBasedOnInputMode si = None"
  by (simp add: moistureSourceAvailable_def updateMoisturesBasedOnInputMode_def)

lemma updateMoistures_total:
  assumes "moistureSourceAvailable si"
  shows "\<exists>si'. updateMoisturesBasedOnInputMode si = Some si' \<and> moistureSourceAvailable si'"
  using updateMoistures_Some [OF assms] assms
  by (auto simp: moistureSourceAvailable_def)

lemma moistureSourceAvailable_update [simp]:
  "moistureSourceAvailable (si\<lparr>moistureOneHour := x\<rparr>) = moistureSourceAvailable si"
  "moistureSourceAvailable (si\<lparr>moistureTenHour := x\<rparr>) = moistureSourceAvailable si"
  "moistureSourceAvailable (si\<lparr>moistureHundredHour := x\<rparr>) = moistureSourceAvailable si"
  "moistureSourceAvailable (si\<lparr>moistureLiveHerbaceous := x\<rparr>) = moistureSourceAvailable si"
  "moistureSourceAvailable (si\<lparr>moistureLiveWoody := x\<rparr>) = moistureSourceAvailable si"
  by (simp_all add: moistureSourceAvailable_def)

lemma setMoisture_total:
  assumes "moistureSourceAvailable si"
  shows "\<exists>si'. setMoistureOneHour conv v u si = Some si' \<and> moistureSourceAvailable si'"
    and "\<exists>si'. setMoistureTenHour conv v u si = Some si' \<and> moistureSourceAvailable si'"
    and "\<exists>si'. setMoistureHundredHour conv v u si = Some si' \<and> moistureSourceAvailable si'"
    and "\<exists>si'. setMoistureLiveHerbaceous conv v u si = Some si' \<and> moistureSourceAvailable si'"
    and "\<exists>si'. setMoistureLiveWoody conv v u si = Some si' \<and> moistureSourceAvailable si'"
  unfolding setMoistureOneHour_def setMoistureTenHour_def setMoistureHundredHour_def
    setMoistureLiveHerbaceous_def setMoistureLiveWoody_def
  using assms by (simp_all add: updateMoistures_total)

lemma updateSurfaceInputs_result:
  assumes "moistureSourceAvailable si"
  shows "map_option windDirection
           (updateSurfaceInputs conv n m1 m10 m100 mlh mlw mu ws wsu whm wd wom sl slu
              asp cc cu ch chu cr si)
         = subtractFullTurns (if wd < 0 then roundToDouble (wd + 360) else wd)"
proof -
  let ?si3 = "setFuelModelNumber n ((setSlope conv sl slu si)\<lparr>aspect := asp\<rparr>)"
  have a3: "moistureSourceAvailable ?si3"
    using assms by (simp add: moistureSourceAvailable_def setFuelModelNumber_def setSlope_def)
  obtain si4 where s4: "setMoistureOneHour conv m1 mu ?si3 = Some si4"
    and a4: "moistureSourceAvailable si4"
    using setMoisture_total(1) [OF a3, of conv m1 mu] by blast
  obtain si5 where s5: "setMoistureTenHour conv m10 mu si4 = Some si5"
    and a5: "moistureSourceAvailable si5"
    using setMoisture_total(2) [OF a4, of conv m10 mu] by blast
  obtain si6 where s6: "setMoistureHundredHour conv m100 mu si5 = Some si6"
    and a6: "moistureSourceAvailable si6"
    using setMoisture_total(3) [OF a5, of conv m100 mu] by blast
  obtain si7 where s7: "setMoistureLiveHerbaceous conv mlh mu si6 = Some si7"
    and a7: "moistureSourceAvailable si7"
    using setMoisture_total(4) [OF a6, of conv mlh mu] by blast
  obtain si8 where s8: "setMoistureLiveWoody conv mlw mu si7 = Some si8"
    using setMoisture_total(5) [OF a7, of conv mlw mu] by blast
  show ?thesis
    unfolding updateSurfaceInputs_def Let_def
    by (cases "subtractFullTurns (if wd < 0 then roundToDouble (wd + 360) else wd)")
       (simp_all add: s4 s5 s6 s7 s8 setWindSpeed_def setWindHeightInputMode_def setWindDirection_def
        setWindAndSpreadOrientationMode_def setTwoFuelModelsMethod_def setCanopyCover_def
        setCanopyHeight_def setCrownRatio_def)
qed

lemma updateMoistures_flags:
  assumes "updateMoisturesBasedOnInputMode si = Some si'"
  shows "isUsingTwoFuelModels si' = isUsingTwoFuelModels si"
    and "getFuelModelNumber si' = getFuelModelNumber si"
    and "getIsUsingPalmettoGallberry si' = getIsUsingPalmettoGallberry si"
    and "getIsUsingWesternAspen si' = getIsUsingWesternAspen si"
    and "getIsUsingChaparral si' = getIsUsingChaparral si"
proof -
  have "moistureSourceAvailable si"
    using assms updateMoistures_None [of si] by fastforce
  from updateMoistures_Some [OF this] assms
  obtain m where "si' = si\<lparr>moistureValuesBySizeClass := m\<rparr>" by auto
  then show "isUsingTwoFuelModels si' = isUsingTwoFuelModels si"
    and "getFuelModelNumber si' = getFuelModelNumber si"
    and "getIsUsingPalmettoGallberry si' = getIsUsingPalmettoGallberry si"
    and "getIsUsingWesternAspen si' = getIsUsingWesternAspen si"
    and "getIsUsingChaparral si' = getIsUsingChaparral si"
    by (simp_all add: isUsingTwoFuelModels_def getFuelModelNumber_def getIsUsingPalmettoGallberry_def
      getIsUsingWesternAspen_def getIsUsingChaparral_def)
qed

lemma skip_outputs_zero:
  "surfaceOutputsAllZero (surfaceFire (surfaceAfterRun ext (s1, SkipCalculationForZeroLoad)))"
  by (simp add: surfaceOutputsAllZero_def surfaceAfterRun_def skipCalculationForZeroLoad_def)

subsection \<open>Special fuel switches\<close>

text \<open>
  C7. From a state in which at most one of the three special fuel flags is set, each of
  \<^verbatim>\<open>setIsUsingPalmettoGallberry\<close>, \<^verbatim>\<open>setIsUsingWesternAspen\<close> and
  \<^verbatim>\<open>setIsUsingChaparral\<close>, called with either boolean, leaves at most one flag set;
  and switching one on (from any state) clears the other two.
\<close>

theorem special_fuel_flags_stay_exclusive:
  assumes "specialFuelFlagCount si \<le> 1"
  shows "specialFuelFlagCount (setIsUsingPalmettoGallberry b si) \<le> 1
       \<and> specialFuelFlagCount (setIsUsingWesternAspen b si) \<le> 1
       \<and> specialFuelFlagCount (setIsUsingChaparral b si) \<le> 1
       \<and> (isUsingPalmettoGallberry (setIsUsingPalmettoGallberry True si)
          \<and> \<not> isUsingWesternAspen (setIsUsingPalmettoGallberry True si)
          \<and> \<not> isUsingChaparral (setIsUsingPalmettoGallberry True si))
       \<and> (isUsingWesternAspen (setIsUsingWesternAspen True si)
          \<and> \<not> isUsingPalmettoGallberry (setIsUsingWesternAspen True si)
          \<and> \<not> isUsingChaparral (setIsUsingWesternAspen True si))
       \<and> (isUsingChaparral (setIsUsingChaparral True si)
          \<and> \<not> isUsingPalmettoGallberry (setIsUsingChaparral True si)
          \<and> \<not> isUsingWesternAspen (setIsUsingChaparral True si))"
  using assms
  by (cases b)
     (auto simp: specialFuelFlagCount_def setIsUsingPalmettoGallberry_def
        setIsUsingWesternAspen_def setIsUsingChaparral_def Let_def split: if_splits)

theorem special_fuel_flags_stay_exclusive_witness:
  "specialFuelFlagCount (setIsUsingChaparral True defaultSurfaceInputs) \<le> 1
   \<and> specialFuelFlagCount
        (setIsUsingWesternAspen True (setIsUsingChaparral True defaultSurfaceInputs)) \<le> 1
   \<and> isUsingWesternAspen
        (setIsUsingWesternAspen True (setIsUsingChaparral True defaultSurfaceInputs))
   \<and> \<not> isUsingChaparral
        (setIsUsingWesternAspen True (setIsUsingChaparral True defaultSurfaceInputs))"
proof -
  have h: "specialFuelFlagCount (setIsUsingChaparral True defaultSurfaceInputs) \<le> 1"
    by (simp add: specialFuelFlagCount_def setIsUsingChaparral_def Let_def defaultSurfaceInputs_def initializeMembers_def zeroedStorage_def)
  show ?thesis
    using h special_fuel_flags_stay_exclusive
      [OF h, of True]
    by simp
qed

subsection \<open>Wind direction\<close>

text \<open>
  \<^verbatim>\<open>setWindDirection\<close> stores 400 for the argument 400. \<^verbatim>\<open>updateSurfaceInputs\<close>
  stores \<open>-40\<close> for the argument \<open>-400\<close>: it adds 360 to a negative argument once.
  For the argument \<open>10\<^sup>1\<^sup>9\<close> it does not return: in double precision
  \<open>10\<^sup>1\<^sup>9 - 360\<close> is \<open>10\<^sup>1\<^sup>9\<close> again, and the loop runs forever.
\<close>

theorem wind_direction_counterexample:
  "\<not> (0 \<le> getWindDirection (setWindDirection 400 defaultSurfaceInputs)
      \<and> getWindDirection (setWindDirection 400 defaultSurfaceInputs) < 360)
   \<and> map_option getWindDirection
       (updateSurfaceInputs baseUnitConversions 1 0 0 0 0 0 () 0 () TWENTY_FOOT (- 400)
          RelativeToUpslope 0 () 0 0 () 0 () 0 defaultSurfaceInputs) = Some (- 40)
   \<and> updateSurfaceInputs baseUnitConversions 1 0 0 0 0 0 () 0 () TWENTY_FOOT (10 ^ 19)
          RelativeToUpslope 0 () 0 0 () 0 () 0 defaultSurfaceInputs = None"
proof (intro conjI)
  show "\<not> (0 \<le> getWindDirection (setWindDirection 400 defaultSurfaceInputs)
      \<and> getWindDirection (setWindDirection 400 defaultSurfaceInputs) < 360)"
    by (simp add: getWindDirection_def setWindDirection_def)
next
  have a: "moistureSourceAvailable defaultSurfaceInputs"
    by (simp add: moistureSourceAvailable_def defaultSurfaceInputs_def initializeMembers_def zeroedStorage_def)
  have "subtractFullTurns (- 40) = Some (- 40)"
    by (simp add: subtractFullTurns.simps [of "- 40"])
  then have "subtractFullTurns (if (- 400 :: real) < 0 then roundToDouble (- 400 + 360) else - 400)
      = Some (- 40)"
    by (simp add: roundToDouble_minus_40)
  with updateSurfaceInputs_result [OF a, of baseUnitConversions 1 0 0 0 0 0 "()" 0 "()"
      TWENTY_FOOT "- 400" RelativeToUpslope 0 "()" 0 0 "()" 0 "()" 0]
  have "map_option windDirection
       (updateSurfaceInputs baseUnitConversions 1 0 0 0 0 0 () 0 () TWENTY_FOOT (- 400)
          RelativeToUpslope 0 () 0 0 () 0 () 0 defaultSurfaceInputs) = Some (- 40)"
    by simp
  then show "map_option getWindDirection
       (updateSurfaceInputs baseUnitConversions 1 0 0 0 0 0 () 0 () TWENTY_FOOT (- 400)
          RelativeToUpslope 0 () 0 0 () 0 () 0 defaultSurfaceInputs) = Some (- 40)"
    by (auto simp: getWindDirection_def)
next
  have a: "moistureSourceAvailable defaultSurfaceInputs"
    by (simp add: moistureSourceAvailable_def defaultSurfaceInputs_def initializeMembers_def zeroedStorage_def)
  have "subtractFullTurns (if (10 ^ 19 :: real) < 0 then roundToDouble (10 ^ 19 + 360) else 10 ^ 19)
      = None"
    by (simp add: subtractFullTurns_runs_forever)
  with updateSurfaceInputs_result [OF a, of baseUnitConversions 1 0 0 0 0 0 "()" 0 "()"
      TWENTY_FOOT "10 ^ 19" RelativeToUpslope 0 "()" 0 0 "()" 0 "()" 0]
  show "updateSurfaceInputs baseUnitConversions 1 0 0 0 0 0 () 0 () TWENTY_FOOT (10 ^ 19)
          RelativeToUpslope 0 () 0 0 () 0 () 0 defaultSurfaceInputs = None"
    by simp
qed

text \<open>
  C8, amended. \<^verbatim>\<open>updateSurfaceInputs\<close>, called with a wind direction of at least
  \<open>-360\<close> and at most \<open>2\<^sup>6\<^sup>2\<close> on inputs whose moisture values can be refreshed,
  returns, and the wind direction it has stored lies in \<open>[0, 360)\<close>; the sum and the
  differences are rounded to double precision, and up to \<open>2\<^sup>6\<^sup>2\<close> each round of the
  loop lowers the value by at least 104. \<^verbatim>\<open>setWindDirection\<close> stores its argument as
  it is given.
\<close>

theorem wind_direction_normalized_in_range:
  "(moistureSourceAvailable si \<and> - 360 \<le> wd \<and> wd \<le> 2 ^ 62 \<longrightarrow>
      (\<exists>si'. updateSurfaceInputs conv n m1 m10 m100 mlh mlw mu ws wsu whm wd wom sl slu
                asp cc cu ch chu cr si = Some si'
            \<and> 0 \<le> getWindDirection si' \<and> getWindDirection si' < 360))
   \<and> getWindDirection (setWindDirection wd si) = wd"
proof (intro conjI impI)
  assume a: "moistureSourceAvailable si \<and> - 360 \<le> wd \<and> wd \<le> 2 ^ 62"
  then obtain r where r: "subtractFullTurns (if wd < 0 then roundToDouble (wd + 360) else wd)
      = Some r" "0 \<le> r" "r < 360"
    using normalised_wind_direction_returns [of wd] by blast
  from a have "map_option windDirection
      (updateSurfaceInputs conv n m1 m10 m100 mlh mlw mu ws wsu whm wd wom sl slu
         asp cc cu ch chu cr si) = Some r"
    using updateSurfaceInputs_result [of si conv n m1 m10 m100 mlh mlw mu ws wsu whm wd wom
        sl slu asp cc cu ch chu cr] r(1) by simp
  with r(2,3)
  show "\<exists>si'. updateSurfaceInputs conv n m1 m10 m100 mlh mlw mu ws wsu whm wd wom sl slu
                asp cc cu ch chu cr si = Some si'
            \<and> 0 \<le> getWindDirection si' \<and> getWindDirection si' < 360"
    by (auto simp: getWindDirection_def)
next
  show "getWindDirection (setWindDirection wd si) = wd"
    by (simp add: getWindDirection_def setWindDirection_def)
qed

theorem wind_direction_normalized_in_range_witness:
  "moistureSourceAvailable defaultSurfaceInputs \<and> - 360 \<le> (- 90 :: real)
   \<and> (- 90 :: real) \<le> 2 ^ 62
   \<and> (\<exists>si'. updateSurfaceInputs baseUnitConversions 1 0 0 0 0 0 () 0 () TWENTY_FOOT (- 90)
                RelativeToUpslope 0 () 0 0 () 0 () 0 defaultSurfaceInputs = Some si'
            \<and> 0 \<le> getWindDirection si' \<and> getWindDirection si' < 360)
   \<and> (\<exists>si'. updateSurfaceInputs baseUnitConversions 1 0 0 0 0 0 () 0 () TWENTY_FOOT 800
                RelativeToUpslope 0 () 0 0 () 0 () 0 defaultSurfaceInputs = Some si'
            \<and> 0 \<le> getWindDirection si' \<and> getWindDirection si' < 360)
   \<and> getWindDirection (setWindDirection 90 defaultSurfaceInputs) = 90"
proof -
  have h: "moistureSourceAvailable defaultSurfaceInputs"
    by (simp add: moistureSourceAvailable_def defaultSurfaceInputs_def initializeMembers_def zeroedStorage_def)
  have b1: "- 360 \<le> (- 90 :: real) \<and> (- 90 :: real) \<le> 2 ^ 62" by simp
  have b2: "- 360 \<le> (800 :: real) \<and> (800 :: real) \<le> 2 ^ 62" by simp
  show ?thesis
    using h b1 b2
      wind_direction_normalized_in_range
        [of defaultSurfaceInputs "- 90" baseUnitConversions 1 0 0 0 0 0 "()" 0 "()" TWENTY_FOOT
            RelativeToUpslope 0 "()" 0 0 "()" 0 "()" 0]
      wind_direction_normalized_in_range
        [of defaultSurfaceInputs 800 baseUnitConversions 1 0 0 0 0 0 "()" 0 "()" TWENTY_FOOT
            RelativeToUpslope 0 "()" 0 0 "()" 0 "()" 0]
      wind_direction_normalized_in_range
        [of defaultSurfaceInputs 90 baseUnitConversions 1 0 0 0 0 0 "()" 0 "()" TWENTY_FOOT
            RelativeToUpslope 0 "()" 0 0 "()" 0 "()" 0]
    by simp
qed

subsection \<open>Flame length\<close>

text \<open>
  C3. For a fireline intensity \<open>i\<close> given in base units and a flame length asked for in
  base units (the two conversions return their argument),
  \<^verbatim>\<open>Surface::calculateFlameLength\<close> returns 0 when \<open>i < 1e-7\<close> and
  \<open>0.45 * i ^ 0.46\<close> otherwise; so the flame length is monotonically non-decreasing in
  \<open>i\<close>, and it is 0 exactly when \<open>i < 1e-7\<close>.
\<close>

theorem flame_length_law:
  assumes "\<forall>x. toBase x iu = x" and "\<forall>x. fromBase x lu = x"
  shows "calculateFlameLength toBase fromBase i iu lu =
           (if i < 0.0000001 then 0 else 0.45 * i powr 0.46)
       \<and> (i1 \<le> i2 \<longrightarrow>
            calculateFlameLength toBase fromBase i1 iu lu
              \<le> calculateFlameLength toBase fromBase i2 iu lu)
       \<and> (calculateFlameLength toBase fromBase i iu lu = 0 \<longleftrightarrow> i < 0.0000001)"
proof -
  have eq: "calculateFlameLength toBase fromBase x iu lu =
      (if x < 0.0000001 then 0 else 0.45 * x powr 0.46)" for x
    using assms by (simp add: calculateFlameLength_def Let_def)
  have mono: "(if i1 < 0.0000001 then 0 else 0.45 * i1 powr 0.46)
      \<le> (if i2 < 0.0000001 then 0 else 0.45 * i2 powr 0.46)" if "i1 \<le> i2"
  proof (cases "i1 < 0.0000001")
    case True
    then show ?thesis by simp
  next
    case False
    then have "0 \<le> i1" by simp
    then have "i1 powr 0.46 \<le> i2 powr 0.46"
      using that by (intro powr_mono2) simp_all
    with False that show ?thesis by simp
  qed
  have zero: "(if i < 0.0000001 then 0 else 0.45 * i powr 0.46) = 0 \<longleftrightarrow> i < 0.0000001"
    by auto
  show ?thesis using mono zero by (simp only: eq) blast
qed

theorem flame_length_law_witness:
  "(\<forall>x. sameUnits x () = x)
   \<and> calculateFlameLength sameUnits sameUnits 0 () () = 0
   \<and> calculateFlameLength sameUnits sameUnits 1 () () = 0.45
   \<and> calculateFlameLength sameUnits sameUnits 0 () () \<le> calculateFlameLength sameUnits sameUnits 1 () ()"
proof -
  have h: "\<forall>x. sameUnits x () = x" by (simp add: sameUnits_def)
  show ?thesis
    using h flame_length_law [of sameUnits "()" sameUnits "()" 0 0 1]
      flame_length_law [of sameUnits "()" sameUnits "()" 1 0 1]
    by simp
qed

subsection \<open>Zero fuel load\<close>

text \<open>
  With the chaparral special fuel switched on and fuel model number 0, which the catalog
  holds as an empty and undefined model, the run in the direction of maximum spread calls
  \<^verbatim>\<open>calculateForwardSpreadRate\<close>.
\<close>

theorem zero_load_counterexample:
  "isAllFuelLoadZero exampleFuelModels (getFuelModelNumber (surfaceInputs chaparralSurface))
   \<and> \<not> isFuelModelDefined exampleFuelModels (getFuelModelNumber (surfaceInputs chaparralSurface))
   \<and> map_option snd (doSurfaceRunInDirectionOfMaxSpread exampleFuelModels chaparralSurface)
       = Some (CalculateForwardSpreadRate 0 False 0 FromIgnitionPoint)"
  by (simp add: doSurfaceRunInDirectionOfMaxSpread_def updateMoisturesBasedOnInputMode_def
      isAllFuelLoadZero_def isFuelModelDefined_def setIsUsingChaparral_def Let_def
      isUsingTwoFuelModels_def getFuelModelNumber_def getIsUsingPalmettoGallberry_def
      getIsUsingWesternAspen_def getIsUsingChaparral_def chaparralSurface_def defaultSurface_def exampleFuelModels_def
      defaultSurfaceInputs_def initializeMembers_def zeroedStorage_def)

text \<open>
  C4, amended. Take a surface run with a single fuel model (two fuel models are not in
  use) and no special fuel (palmetto-gallberry, western aspen, chaparral) in use, whose
  fuel model number has zero load in all size classes or is undefined, on inputs whose
  moisture values can be refreshed. Both in a direction of interest and in the direction
  of maximum spread, the run makes the call \<^verbatim>\<open>skipCalculationForZeroLoad\<close>, and no
  other, on the surface fire; after that call the spread rate, the fireline intensity,
  the flame length and the heat per unit area are 0.
\<close>

theorem zero_load_short_circuit:
  assumes "moistureSourceAvailable (surfaceInputs s)"
    and "\<not> isUsingTwoFuelModels (surfaceInputs s)"
    and "\<not> getIsUsingPalmettoGallberry (surfaceInputs s)"
    and "\<not> getIsUsingWesternAspen (surfaceInputs s)"
    and "\<not> getIsUsingChaparral (surfaceInputs s)"
    and "isAllFuelLoadZero fuelModels (getFuelModelNumber (surfaceInputs s))
         \<or> \<not> isFuelModelDefined fuelModels (getFuelModelNumber (surfaceInputs s))"
  shows "(\<exists>s1. doSurfaceRunInDirectionOfInterest fuelModels directionOfInterest directionMode s
                 = Some (s1, SkipCalculationForZeroLoad)
             \<and> surfaceOutputsAllZero
                 (surfaceFire (surfaceAfterRun ext (s1, SkipCalculationForZeroLoad))))
       \<and> (\<exists>s1. doSurfaceRunInDirectionOfMaxSpread fuelModels s
                 = Some (s1, SkipCalculationForZeroLoad)
             \<and> surfaceOutputsAllZero
                 (surfaceFire (surfaceAfterRun ext (s1, SkipCalculationForZeroLoad))))"
proof -
  from updateMoistures_total [OF assms(1)]
  obtain si' where u: "updateMoisturesBasedOnInputMode (surfaceInputs s) = Some si'" by blast
  note f = updateMoistures_flags [OF u]
  have a: "doSurfaceRunInDirectionOfInterest fuelModels directionOfInterest directionMode s
      = Some (s\<lparr>surfaceInputs := si'\<rparr>, SkipCalculationForZeroLoad)"
    using assms(2,6) by (auto simp: doSurfaceRunInDirectionOfInterest_def u f Let_def)
  have b: "doSurfaceRunInDirectionOfMaxSpread fuelModels s
      = Some (s\<lparr>surfaceInputs := si'\<rparr>, SkipCalculationForZeroLoad)"
    using assms(2-6) by (auto simp: doSurfaceRunInDirectionOfMaxSpread_def u f Let_def)
  show ?thesis
    using a b skip_outputs_zero by auto
qed

theorem zero_load_short_circuit_witness:
  "moistureSourceAvailable (surfaceInputs defaultSurface)
   \<and> \<not> isUsingTwoFuelModels (surfaceInputs defaultSurface)
   \<and> \<not> getIsUsingPalmettoGallberry (surfaceInputs defaultSurface)
   \<and> \<not> getIsUsingWesternAspen (surfaceInputs defaultSurface)
   \<and> \<not> getIsUsingChaparral (surfaceInputs defaultSurface)
   \<and> isAllFuelLoadZero exampleFuelModels (getFuelModelNumber (surfaceInputs defaultSurface))
   \<and> map_option snd (doSurfaceRunInDirectionOfInterest exampleFuelModels 90 FromIgnitionPoint
        defaultSurface) = Some SkipCalculationForZeroLoad
   \<and> map_option snd (doSurfaceRunInDirectionOfMaxSpread exampleFuelModels defaultSurface)
       = Some SkipCalculationForZeroLoad"
proof -
  have h1: "moistureSourceAvailable (surfaceInputs defaultSurface)"
    by (simp add: moistureSourceAvailable_def defaultSurface_def exampleFuelModels_def defaultSurfaceInputs_def initializeMembers_def zeroedStorage_def)
  have h2: "\<not> isUsingTwoFuelModels (surfaceInputs defaultSurface)"
    by (simp add: isUsingTwoFuelModels_def getFuelModelNumber_def getIsUsingPalmettoGallberry_def
      getIsUsingWesternAspen_def getIsUsingChaparral_def defaultSurface_def exampleFuelModels_def defaultSurfaceInputs_def initializeMembers_def zeroedStorage_def)
  have h3: "\<not> getIsUsingPalmettoGallberry (surfaceInputs defaultSurface)"
    by (simp add: isUsingTwoFuelModels_def getFuelModelNumber_def getIsUsingPalmettoGallberry_def
      getIsUsingWesternAspen_def getIsUsingChaparral_def defaultSurface_def exampleFuelModels_def defaultSurfaceInputs_def initializeMembers_def zeroedStorage_def)
  have h4: "\<not> getIsUsingWesternAspen (surfaceInputs defaultSurface)"
    by (simp add: isUsingTwoFuelModels_def getFuelModelNumber_def getIsUsingPalmettoGallberry_def
      getIsUsingWesternAspen_def getIsUsingChaparral_def defaultSurface_def exampleFuelModels_def defaultSurfaceInputs_def initializeMembers_def zeroedStorage_def)
  have h5: "\<not> getIsUsingChaparral (surfaceInputs defaultSurface)"
    by (simp add: isUsingTwoFuelModels_def getFuelModelNumber_def getIsUsingPalmettoGallberry_def
      getIsUsingWesternAspen_def getIsUsingChaparral_def defaultSurface_def exampleFuelModels_def defaultSurfaceInputs_def initializeMembers_def zeroedStorage_def)
  have h6: "isAllFuelLoadZero exampleFuelModels (getFuelModelNumber (surfaceInputs defaultSurface))"
    by (simp add: isAllFuelLoadZero_def isUsingTwoFuelModels_def getFuelModelNumber_def getIsUsingPalmettoGallberry_def
      getIsUsingWesternAspen_def getIsUsingChaparral_def defaultSurface_def exampleFuelModels_def defaultSurfaceInputs_def initializeMembers_def zeroedStorage_def)
  then have h6': "isAllFuelLoadZero exampleFuelModels
        (getFuelModelNumber (surfaceInputs defaultSurface))
      \<or> \<not> isFuelModelDefined exampleFuelModels
        (getFuelModelNumber (surfaceInputs defaultSurface))"
    by simp
  from zero_load_short_circuit
    [OF h1 h2 h3 h4 h5 h6', of 90 FromIgnitionPoint exampleSurfaceFireExternals]
  obtain s1 s2 where
    "doSurfaceRunInDirectionOfInterest exampleFuelModels 90 FromIgnitionPoint defaultSurface
       = Some (s1, SkipCalculationForZeroLoad)"
    "doSurfaceRunInDirectionOfMaxSpread exampleFuelModels defaultSurface
       = Some (s2, SkipCalculationForZeroLoad)"
    by blast
  with h1 h2 h3 h4 h5 h6 show ?thesis by simp
qed

subsection \<open>Wind speed at twenty feet\<close>

text \<open>
  C9. \<^verbatim>\<open>Crown::calculateWindSpeedAtTwentyFeet\<close> returns the wind speed stored in the
  caller's inputs when their reference height mode is \<^term>\<open>TWENTY_FOOT\<close>, the
  ten-metre conversion of \<^verbatim>\<open>WindSpeedUtility\<close> applied to it when the mode is
  \<^term>\<open>TEN_METER\<close>, and \<open>-1\<close> in every other mode, which includes the default
  \<^term>\<open>DirectMidflame\<close>; the value returned is also the one stored in
  \<^verbatim>\<open>windSpeedAtTwentyFeet_\<close>.
\<close>

theorem wind_speed_at_twenty_feet_by_mode:
  "(getWindHeightInputMode (surfaceInputsAt w (surfaceInputsPtr (crown w))) = TWENTY_FOOT \<longrightarrow>
      fst (calculateWindSpeedAtTwentyFeet ext w) =
        getWindSpeed (surfaceInputsAt w (surfaceInputsPtr (crown w))))
   \<and> (getWindHeightInputMode (surfaceInputsAt w (surfaceInputsPtr (crown w))) = TEN_METER \<longrightarrow>
      fst (calculateWindSpeedAtTwentyFeet ext w) =
        windSpeedAtTwentyFeetFromTenMeter ext
          (getWindSpeed (surfaceInputsAt w (surfaceInputsPtr (crown w)))))
   \<and> (getWindHeightInputMode (surfaceInputsAt w (surfaceInputsPtr (crown w))) \<noteq> TWENTY_FOOT
      \<and> getWindHeightInputMode (surfaceInputsAt w (surfaceInputsPtr (crown w))) \<noteq> TEN_METER \<longrightarrow>
      fst (calculateWindSpeedAtTwentyFeet ext w) = - 1)
   \<and> windSpeedAtTwentyFeet (crown (snd (calculateWindSpeedAtTwentyFeet ext w))) =
       fst (calculateWindSpeedAtTwentyFeet ext w)"
proof (cases "getWindHeightInputMode (surfaceInputsAt w (surfaceInputsPtr (crown w)))")
  case DirectMidflame
  then show ?thesis by (simp add: calculateWindSpeedAtTwentyFeet_def Let_def)
next
  case TWENTY_FOOT
  then show ?thesis by (simp add: calculateWindSpeedAtTwentyFeet_def Let_def)
next
  case TEN_METER
  then show ?thesis by (simp add: calculateWindSpeedAtTwentyFeet_def Let_def)
qed

theorem wind_speed_at_twenty_feet_by_mode_witness:
  "getWindHeightInputMode (surfaceInputsAt twentyFootWorld (surfaceInputsPtr (crown twentyFootWorld)))
     = TWENTY_FOOT
   \<and> fst (calculateWindSpeedAtTwentyFeet exampleCrownExternals twentyFootWorld) = 10
   \<and> getWindHeightInputMode (surfaceInputsAt tenMeterWorld (surfaceInputsPtr (crown tenMeterWorld)))
     = TEN_METER
   \<and> fst (calculateWindSpeedAtTwentyFeet exampleCrownExternals tenMeterWorld) = 10 / 1.15
   \<and> getWindHeightInputMode (surfaceInputsAt exampleWorld (surfaceInputsPtr (crown exampleWorld)))
     = DirectMidflame
   \<and> fst (calculateWindSpeedAtTwentyFeet exampleCrownExternals exampleWorld) = - 1"
proof -
  have m1: "getWindHeightInputMode
      (surfaceInputsAt twentyFootWorld (surfaceInputsPtr (crown twentyFootWorld))) = TWENTY_FOOT"
    by (simp add: getWindHeightInputMode_def getWindSpeed_def setWindSpeed_def twentyFootWorld_def tenMeterWorld_def exampleCrownExternals_def
      baseUnitConversions_def sameUnits_def exampleWorld_def Crown_constructor_def memberwiseCopyAssignment_def
      blankCrown_def lowCanopyInputs_def defaultSurfaceInputs_def initializeMembers_def zeroedStorage_def)
  have m2: "getWindHeightInputMode
      (surfaceInputsAt tenMeterWorld (surfaceInputsPtr (crown tenMeterWorld))) = TEN_METER"
    by (simp add: getWindHeightInputMode_def getWindSpeed_def setWindSpeed_def twentyFootWorld_def tenMeterWorld_def exampleCrownExternals_def
      baseUnitConversions_def sameUnits_def exampleWorld_def Crown_constructor_def memberwiseCopyAssignment_def
      blankCrown_def lowCanopyInputs_def defaultSurfaceInputs_def initializeMembers_def zeroedStorage_def)
  have m3: "getWindHeightInputMode
      (surfaceInputsAt exampleWorld (surfaceInputsPtr (crown exampleWorld))) = DirectMidflame"
    by (simp add: getWindHeightInputMode_def getWindSpeed_def setWindSpeed_def twentyFootWorld_def tenMeterWorld_def exampleCrownExternals_def
      baseUnitConversions_def sameUnits_def exampleWorld_def Crown_constructor_def memberwiseCopyAssignment_def
      blankCrown_def lowCanopyInputs_def defaultSurfaceInputs_def initializeMembers_def zeroedStorage_def)
  have v1: "getWindSpeed (surfaceInputsAt twentyFootWorld (surfaceInputsPtr (crown twentyFootWorld))) = 10"
    by (simp add: getWindHeightInputMode_def getWindSpeed_def setWindSpeed_def twentyFootWorld_def tenMeterWorld_def exampleCrownExternals_def
      baseUnitConversions_def sameUnits_def exampleWorld_def Crown_constructor_def memberwiseCopyAssignment_def
      blankCrown_def lowCanopyInputs_def defaultSurfaceInputs_def initializeMembers_def zeroedStorage_def)
  have v2: "windSpeedAtTwentyFeetFromTenMeter exampleCrownExternals
      (getWindSpeed (surfaceInputsAt tenMeterWorld (surfaceInputsPtr (crown tenMeterWorld)))) = 10 / 1.15"
    by (simp add: getWindHeightInputMode_def getWindSpeed_def setWindSpeed_def twentyFootWorld_def tenMeterWorld_def exampleCrownExternals_def
      baseUnitConversions_def sameUnits_def exampleWorld_def Crown_constructor_def memberwiseCopyAssignment_def
      blankCrown_def lowCanopyInputs_def defaultSurfaceInputs_def initializeMembers_def zeroedStorage_def)
  show ?thesis
    using m1 m2 m3 v1 v2
      wind_speed_at_twenty_feet_by_mode [of twentyFootWorld exampleCrownExternals]
      wind_speed_at_twenty_feet_by_mode [of tenMeterWorld exampleCrownExternals]
      wind_speed_at_twenty_feet_by_mode [of exampleWorld exampleCrownExternals]
    by simp
qed

subsection \<open>Critical surface fire intensity and transition ratio\<close>

text \<open>
  C2. For every foliar moisture \<open>m\<close> and canopy base height \<open>h\<close> (feet),
  \<^verbatim>\<open>Crown::calculateCrownCriticalSurfaceFireIntensity\<close> returns, and stores,
  \<open>0.288672 * (0.01 * max (h * 0.3048) 0.1 * (450 + 25.9 * max m 30)) ^ 1.5\<close>: the
  moisture is floored at 30, the height in metres at 0.1, and the constant is 450.
\<close>

theorem critical_surface_fire_intensity_formula:
  "fst (calculateCrownCriticalSurfaceFireIntensity w) =
     0.288672 *
       (0.01 * max (getCanopyBaseHeight (crownInputsAt w (crownInputsPtr (crown w))) * 0.3048) 0.1
          * (450 + 25.9 * max (getFoliarMoisture (crownInputsAt w (crownInputsPtr (crown w)))) 30))
       powr 1.5
   \<and> crownCriticalSurfaceFireIntensity (crown (snd (calculateCrownCriticalSurfaceFireIntensity w)))
       = fst (calculateCrownCriticalSurfaceFireIntensity w)"
proof -
  have clamp: "(if x < c then c else x) = max x c" for x c :: real
    by (simp add: max_def)
  show ?thesis
    unfolding calculateCrownCriticalSurfaceFireIntensity_def Let_def clamp
    by simp
qed

theorem critical_surface_fire_intensity_formula_witness:
  "fst (calculateCrownCriticalSurfaceFireIntensity exampleWorld) =
     0.288672 * (0.01 * 0.1 * (450 + 25.9 * 30)) powr 1.5"
  using critical_surface_fire_intensity_formula [of exampleWorld]
  by (simp add: getCanopyBaseHeight_def getFoliarMoisture_def exampleWorld_def Crown_constructor_def memberwiseCopyAssignment_def
      blankCrown_def lowCanopyInputs_def defaultSurfaceInputs_def initializeMembers_def zeroedStorage_def)

text \<open>
  C5. In every state, \<^verbatim>\<open>Crown::calculateCrownFireTransitionRatio\<close> returns 0 when the
  critical surface fireline intensity is below \<open>1e-7\<close> and the surface fireline
  intensity divided by the critical one otherwise, and changes nothing.
\<close>

theorem transition_ratio_guarded:
  "calculateCrownFireTransitionRatio w =
     Some (if crownCriticalSurfaceFireIntensity (crown w) < 0.0000001 then 0
           else crownCopyOfSurfaceFirelineIntensity (crown w)
                / crownCriticalSurfaceFireIntensity (crown w),
           w)"
proof (cases "crownCriticalSurfaceFireIntensity (crown w) < 0.0000001")
  case True
  then show ?thesis by (simp add: calculateCrownFireTransitionRatio_def)
next
  case False
  then have "divideGuarded (crownCopyOfSurfaceFirelineIntensity (crown w))
      (crownCriticalSurfaceFireIntensity (crown w))
    = Some (crownCopyOfSurfaceFirelineIntensity (crown w)
            / crownCriticalSurfaceFireIntensity (crown w))"
    by (intro divideGuarded_Some) simp
  with False show ?thesis by (simp add: calculateCrownFireTransitionRatio_def)
qed

subsection \<open>Critical crown fire spread rate and active ratio\<close>

text \<open>
  With a canopy bulk density of \<open>10\<^sup>8\<close> lb/ft3 the converted density is not below
  \<open>1e-7\<close>, the critical spread rate is about \<open>6e-9\<close>, and the active ratio returned
  for a crown fire spread rate of 1 is 0, not the quotient of the two.
\<close>

theorem active_ratio_counterexample:
  "\<not> 16.0185 * getCanopyBulkDensity
        (crownInputsAt denseCanopyWorld (crownInputsPtr (crown denseCanopyWorld))) < 0.0000001
   \<and> map_option fst (criticalSpreadRateThenActiveRatio denseCanopyWorld)
       = Some (3 / (16.0185 * 100000000) * 3.28084)
   \<and> map_option (fst \<circ> snd) (criticalSpreadRateThenActiveRatio denseCanopyWorld) = Some 0
   \<and> crownFireSpreadRate (crown denseCanopyWorld) / (3 / (16.0185 * 100000000) * 3.28084) \<noteq> 0"
  by (simp add: criticalSpreadRateThenActiveRatio_def calculateCrownCriticalFireSpreadRate_result
      calculateCrownFireActiveRatio_def getCanopyBulkDensity_def denseCanopyWorld_def exampleWorld_def Crown_constructor_def memberwiseCopyAssignment_def
      blankCrown_def lowCanopyInputs_def defaultSurfaceInputs_def initializeMembers_def zeroedStorage_def Let_def)

text \<open>
  C6, amended. Let the converted density be 16.0185 times the canopy bulk density.
  \<^verbatim>\<open>Crown::calculateCrownCriticalFireSpreadRate\<close> returns 0 when the converted density
  is below \<open>1e-7\<close>, and 3 divided by it, times 3.28084, otherwise.
  \<^verbatim>\<open>Crown::calculateCrownFireActiveRatio\<close>, called next, returns 0 when that critical
  rate is below \<open>1e-7\<close> and the crown fire spread rate divided by the critical rate
  otherwise; in particular both return 0 when the converted density is below \<open>1e-7\<close>.
  Both calls have a result: neither divides by a denominator that is near zero.
\<close>

theorem critical_spread_rate_and_active_ratio:
  "let convertedBulkDensity =
         16.0185 * getCanopyBulkDensity (crownInputsAt w (crownInputsPtr (crown w)));
       criticalRate =
         (if convertedBulkDensity < 0.0000001 then 0 else 3 / convertedBulkDensity * 3.28084);
       activeRatio =
         (if criticalRate < 0.0000001 then 0 else crownFireSpreadRate (crown w) / criticalRate)
   in (\<exists>w'. criticalSpreadRateThenActiveRatio w = Some (criticalRate, activeRatio, w'))
      \<and> map_option fst (calculateCrownCriticalFireSpreadRate w) = Some criticalRate
      \<and> (convertedBulkDensity < 0.0000001 \<longrightarrow> criticalRate = 0 \<and> activeRatio = 0)"
  by (simp add: criticalSpreadRateThenActiveRatio_def calculateCrownCriticalFireSpreadRate_result
      calculateCrownFireActiveRatio_def getCanopyBulkDensity_def divideGuarded_Some Let_def)

theorem critical_spread_rate_and_active_ratio_witness:
  "16.0185 * getCanopyBulkDensity
      (crownInputsAt bareCanopyWorld (crownInputsPtr (crown bareCanopyWorld))) < 0.0000001
   \<and> map_option fst (criticalSpreadRateThenActiveRatio bareCanopyWorld) = Some 0
   \<and> map_option (fst \<circ> snd) (criticalSpreadRateThenActiveRatio bareCanopyWorld) = Some 0
   \<and> map_option fst (criticalSpreadRateThenActiveRatio activeCrownWorld)
       = Some (3 / (16.0185 * 0.01) * 3.28084)
   \<and> map_option (fst \<circ> snd) (criticalSpreadRateThenActiveRatio activeCrownWorld)
       = Some (100 / (3 / (16.0185 * 0.01) * 3.28084))"
proof -
  have d0: "getCanopyBulkDensity
      (crownInputsAt bareCanopyWorld (crownInputsPtr (crown bareCanopyWorld))) = 0"
    by (simp add: getCanopyBulkDensity_def bareCanopyWorld_def activeCrownWorld_def exampleWorld_def Crown_constructor_def memberwiseCopyAssignment_def
      blankCrown_def lowCanopyInputs_def defaultSurfaceInputs_def initializeMembers_def zeroedStorage_def)
  have d1: "getCanopyBulkDensity
      (crownInputsAt activeCrownWorld (crownInputsPtr (crown activeCrownWorld))) = 0.01"
    by (simp add: getCanopyBulkDensity_def bareCanopyWorld_def activeCrownWorld_def exampleWorld_def Crown_constructor_def memberwiseCopyAssignment_def
      blankCrown_def lowCanopyInputs_def defaultSurfaceInputs_def initializeMembers_def zeroedStorage_def)
  have r1: "crownFireSpreadRate (crown activeCrownWorld) = 100"
    by (simp add: bareCanopyWorld_def activeCrownWorld_def exampleWorld_def Crown_constructor_def memberwiseCopyAssignment_def
      blankCrown_def lowCanopyInputs_def defaultSurfaceInputs_def initializeMembers_def zeroedStorage_def)
  from critical_spread_rate_and_active_ratio [of bareCanopyWorld]
  obtain w0 where e0: "criticalSpreadRateThenActiveRatio bareCanopyWorld = Some (0, 0, w0)"
    unfolding Let_def d0 by auto
  from critical_spread_rate_and_active_ratio [of activeCrownWorld]
  obtain w1 where e1: "criticalSpreadRateThenActiveRatio activeCrownWorld =
      Some (3 / (16.0185 * 0.01) * 3.28084, 100 / (3 / (16.0185 * 0.01) * 3.28084), w1)"
    unfolding Let_def d1 r1 by auto
  show ?thesis unfolding e0 e1 d0 by simp
qed

subsection \<open>Crown fire spread rate\<close>




text \<open>
  C10. \<^verbatim>\<open>Crown::calculateCrownFireSpreadRate\<close> returns and leaves every object of the
  caller as it was (surface inputs, canopy inputs, surface); the four overrides of the
  standardized scenario are in the \<^verbatim>\<open>Crown\<close>'s own copy afterwards. The constructor
  leaves the caller's surface inputs as they were, keeps their address, and makes the
  copy by \<^verbatim>\<open>memberwiseCopyAssignment\<close>: equal to the caller's inputs in every member
  but the four chaparral parameters, which keep what the storage of the \<^verbatim>\<open>Crown\<close> held.
\<close>

theorem crown_spread_rate_writes_only_its_copy:
  "(\<exists>r w'. calculateCrownFireSpreadRate ext w = Some (r, w')
      \<and> surfaceInputsAt w' = surfaceInputsAt w
      \<and> crownInputsAt w' = crownInputsAt w
      \<and> surfaceAt w' = surfaceAt w
      \<and> crownDeepCopyOfSurfaceInputs (crown w') =
          crownScenario
            (specTwentyFootWindSpeed ext (surfaceInputsAt w (surfaceInputsPtr (crown w))))
            (crownDeepCopyOfSurfaceInputs (crown w)))
   \<and> surfaceInputsAt
        (Crown_constructor h fuelModelSetRef crownInputsRef surfaceInputsRef surfaceRef w0)
      = surfaceInputsAt w0
   \<and> surfaceInputsPtr (crown
        (Crown_constructor h fuelModelSetRef crownInputsRef surfaceInputsRef surfaceRef w0))
      = surfaceInputsRef
   \<and> crownDeepCopyOfSurfaceInputs (crown
        (Crown_constructor h fuelModelSetRef crownInputsRef surfaceInputsRef surfaceRef w0))
      = (surfaceInputsAt w0 surfaceInputsRef)
          \<lparr>chaparralFuelType := chaparralFuelType (crownDeepCopyOfSurfaceInputs (crown w0)),
           chaparralFuelBedDepth :=
             chaparralFuelBedDepth (crownDeepCopyOfSurfaceInputs (crown w0)),
           chaparralFuelDeadLoadFraction :=
             chaparralFuelDeadLoadFraction (crownDeepCopyOfSurfaceInputs (crown w0)),
           chaparralTotalFuelLoad :=
             chaparralTotalFuelLoad (crownDeepCopyOfSurfaceInputs (crown w0))\<rparr>"
proof (intro conjI)
  show "\<exists>r w'. calculateCrownFireSpreadRate ext w = Some (r, w')
      \<and> surfaceInputsAt w' = surfaceInputsAt w
      \<and> crownInputsAt w' = crownInputsAt w
      \<and> surfaceAt w' = surfaceAt w
      \<and> crownDeepCopyOfSurfaceInputs (crown w') =
          crownScenario
            (specTwentyFootWindSpeed ext (surfaceInputsAt w (surfaceInputsPtr (crown w))))
            (crownDeepCopyOfSurfaceInputs (crown w))"
    using calculateCrownFireSpreadRate_result [of ext w] by blast
qed (simp_all add: Crown_constructor_def Let_def memberwiseCopyAssignment_result
      initializeMembers_def zeroedStorage_def)

theorem crown_spread_rate_writes_only_its_copy_witness:
  "\<exists>r w'. calculateCrownFireSpreadRate exampleCrownExternals twentyFootWorld = Some (r, w')
      \<and> surfaceInputsAt w' 0 = setWindSpeed baseUnitConversions 10 () TWENTY_FOOT defaultSurfaceInputs
      \<and> fuelModelNumber (surfaceInputsAt w' 0) = 0
      \<and> fuelModelNumber (crownDeepCopyOfSurfaceInputs (crown w')) = 10"
proof -
  have "surfaceInputsAt twentyFootWorld 0 =
      setWindSpeed baseUnitConversions 10 () TWENTY_FOOT defaultSurfaceInputs"
    by (simp add: twentyFootWorld_def)
  moreover have "fuelModelNumber
      (setWindSpeed baseUnitConversions 10 () TWENTY_FOOT defaultSurfaceInputs) = 0"
    by (simp add: setWindSpeed_def defaultSurfaceInputs_def initializeMembers_def zeroedStorage_def)
  moreover have "fuelModelNumber (crownScenario x si) = 10" for x si
    by (simp add: crownScenario_def)
  moreover from crown_spread_rate_writes_only_its_copy
      [of exampleCrownExternals twentyFootWorld 60 0 0 0 0 exampleWorld]
  obtain r w' where
    "calculateCrownFireSpreadRate exampleCrownExternals twentyFootWorld = Some (r, w')"
    "surfaceInputsAt w' = surfaceInputsAt twentyFootWorld"
    "crownDeepCopyOfSurfaceInputs (crown w') =
       crownScenario
         (specTwentyFootWindSpeed exampleCrownExternals
            (surfaceInputsAt twentyFootWorld (surfaceInputsPtr (crown twentyFootWorld))))
         (crownDeepCopyOfSurfaceInputs (crown twentyFootWorld))"
    by blast
  ultimately show ?thesis by simp
qed


end
